theory Spec2Isabelle
  imports Complex_Main "HOL-Library.AList"
begin

section \<open>Scope of the model\<close>

text \<open>
  The file \<^verbatim>\<open>src/assets/js/cybermidi.js\<close> holds two classes, \<^verbatim>\<open>CyberMidi\<close> and
  \<^verbatim>\<open>CyberStrudel\<close>, which implement the same sequencer engine twice. Both are embedded
  here over one record of engine state; a function of the class \<^verbatim>\<open>CyberStrudel\<close> is
  named \<open>CyberStrudel_f\<close>, one of \<^verbatim>\<open>CyberMidi\<close> is named \<open>CyberMidi_f\<close>, and a method
  whose text is the same in both classes and calls nothing class-specific keeps its
  plain name.

  What is modelled: the step grids, the track configuration, the mix selection, the
  global parameters, the text of the code editor, the saved-pattern library and the
  undo history. What is left out: the DOM mirrors of that state (buttons, sliders),
  the calls to the pattern evaluator (\<^verbatim>\<open>evaluateCode\<close>, \<^verbatim>\<open>stop\<close>, \<^verbatim>\<open>isPlaying\<close>) and
  \<^verbatim>\<open>localStorage\<close>; none of them is read back by the functions below. The element
  \<^verbatim>\<open>code-editor\<close> is taken to exist, and its text is the field \<open>code\<close>.

  A JavaScript object is an association list in the order in which \<^verbatim>\<open>Object.keys\<close>
  enumerates it (keys are taken not to be canonical array indices, which JavaScript
  would enumerate first, and not to name a member of \<^verbatim>\<open>Object.prototype\<close>); as in an
  object, a key occurs once. An ES6 \<^verbatim>\<open>Map\<close> is an association list in insertion order.
  The fields of a track configuration and of the parameters have the types the
  program gives them: booleans, a step count, a sound name, numbers.
  An uncaught \<^verbatim>\<open>TypeError\<close> and every early return behind an error notification is a
  value of the type \<open>failure\<close>, returned next to the state reached at that point.
\<close>

section \<open>Text\<close>

text \<open>
  The decimal digits by which a template literal renders an integral number (of
  less than 22 digits; JavaScript switches to an exponent beyond).
\<close>

fun showNat :: "nat \<Rightarrow> string" where
  "showNat n = (if n < 10 then [''0123456789'' ! n]
                else showNat (n div 10) @ [''0123456789'' ! (n mod 10)])"

declare showNat.simps [simp del]

definition showInt :: "int \<Rightarrow> string" where
  "showInt i = (if i < 0 then ''-'' @ showNat (nat (- i)) else showNat (nat i))"

text \<open>\<^verbatim>\<open>Array.prototype.join\<close> on an array of strings.\<close>

fun joinWith :: "string \<Rightarrow> string list \<Rightarrow> string" where
  "joinWith sep [] = []"
| "joinWith sep [x] = x"
| "joinWith sep (x # y # ys) = x @ sep @ joinWith sep (y # ys)"

text \<open>\<^verbatim>\<open>String.prototype.trim\<close>, on the ASCII white space characters.\<close>

definition isSpace :: "char \<Rightarrow> bool" where
  "isSpace c = (c \<in> set [CHR '' '', CHR 0x09, CHR 0x0A, CHR 0x0B, CHR 0x0C, CHR 0x0D])"

definition trim :: "string \<Rightarrow> string" where
  "trim s = rev (dropWhile isSpace (rev (dropWhile isSpace s)))"

section \<open>JavaScript values\<close>

subsection \<open>Step arrays\<close>

text \<open>
  An element of a step array is a boolean, as \<^verbatim>\<open>Array(8).fill(false)\<close> and the toggles
  write it; a write beyond the end of an array leaves empty slots (\<open>Hole\<close>) behind,
  and copying an empty slot stores \<^verbatim>\<open>undefined\<close> (\<open>Nullish\<close>, which also stands for the
  \<^verbatim>\<open>null\<close> that a JSON copy puts in either place).
\<close>

datatype slot = Hole | Nullish | Bit bool

fun truthySlot :: "slot \<Rightarrow> bool" where
  "truthySlot (Bit b) = b"
| "truthySlot _ = False"

text \<open>\<^verbatim>\<open>xs[i]\<close> read: an empty slot and an index beyond the end both read \<^verbatim>\<open>undefined\<close>.\<close>

definition arrayGet :: "slot list \<Rightarrow> nat \<Rightarrow> slot" where
  "arrayGet xs i = (if i < length xs then (case xs ! i of Hole \<Rightarrow> Nullish | v \<Rightarrow> v) else Nullish)"

text \<open>\<^verbatim>\<open>xs[i] = v\<close>: a write beyond the end extends the array, the gap stays empty.\<close>

definition arraySet :: "slot list \<Rightarrow> nat \<Rightarrow> slot \<Rightarrow> slot list" where
  "arraySet xs i v = (if i < length xs then xs[i := v]
                      else xs @ replicate (i - length xs) Hole @ [v])"

text \<open>\<^verbatim>\<open>JSON.parse(JSON.stringify(xs))\<close>: empty slots and \<^verbatim>\<open>undefined\<close> come back as \<^verbatim>\<open>null\<close>.\<close>

fun jsonSlot :: "slot \<Rightarrow> slot" where
  "jsonSlot Hole = Nullish"
| "jsonSlot v = v"

subsection \<open>Parsed JSON\<close>

text \<open>
  The values \<^verbatim>\<open>JSON.parse\<close> returns, and \<^verbatim>\<open>undefined\<close>. Numbers are restricted to
  integers; an object keeps its members as parsed, the last of two equal keys wins.
\<close>

datatype jsval =
    JUndefined
  | JNull
  | JBool bool
  | JNum int
  | JStr string
  | JArr "jsval list"
  | JObj "(string \<times> jsval) list"

fun truthy :: "jsval \<Rightarrow> bool" where
  "truthy JUndefined = False"
| "truthy JNull = False"
| "truthy (JBool b) = b"
| "truthy (JNum n) = (n \<noteq> 0)"
| "truthy (JStr s) = (s \<noteq> [])"
| "truthy (JArr xs) = True"
| "truthy (JObj fs) = True"

fun nullish :: "jsval \<Rightarrow> bool" where
  "nullish JUndefined = True"
| "nullish JNull = True"
| "nullish _ = False"

text \<open>\<^verbatim>\<open>ToString\<close>, as template literals, \<^verbatim>\<open>join\<close> and the editor's \<^verbatim>\<open>value\<close> apply it.\<close>

fun toStr :: "jsval \<Rightarrow> string" where
  "toStr JUndefined = ''undefined''"
| "toStr JNull = ''null''"
| "toStr (JBool b) = (if b then ''true'' else ''false'')"
| "toStr (JNum n) = showInt n"
| "toStr (JStr s) = s"
| "toStr (JArr xs) = joinWith '','' (map (\<lambda>x. if nullish x then [] else toStr x) xs)"
| "toStr (JObj fs) = ''[object Object]''"

text \<open>\<^verbatim>\<open>patterns.join(sep)\<close> on an array of values.\<close>

definition jsJoin :: "string \<Rightarrow> jsval list \<Rightarrow> string" where
  "jsJoin sep xs = joinWith sep (map (\<lambda>x. if nullish x then [] else toStr x) xs)"

text \<open>\<^verbatim>\<open>v[i]\<close> and \<^verbatim>\<open>v.code\<close> on a value that is not \<^verbatim>\<open>null\<close> or \<^verbatim>\<open>undefined\<close>.\<close>

fun getIndex :: "jsval \<Rightarrow> nat \<Rightarrow> jsval" where
  "getIndex (JArr xs) i = (if i < length xs then xs ! i else JUndefined)"
| "getIndex (JObj fs) i = (case map_of (rev fs) (showNat i) of Some v \<Rightarrow> v | None \<Rightarrow> JUndefined)"
| "getIndex (JStr s) i = (if i < length s then JStr [s ! i] else JUndefined)"
| "getIndex _ i = JUndefined"

fun getCode :: "jsval \<Rightarrow> jsval" where
  "getCode (JObj fs) = (case map_of (rev fs) ''code'' of Some v \<Rightarrow> v | None \<Rightarrow> JUndefined)"
| "getCode _ = JUndefined"

subsection \<open>ES6 Map\<close>

text \<open>
  Keys are compared by \<^verbatim>\<open>SameValueZero\<close>: primitives by value, arrays and objects by
  identity, and two parsed arrays or objects are never the same object.
\<close>

fun primitive :: "jsval \<Rightarrow> bool" where
  "primitive (JArr xs) = False"
| "primitive (JObj fs) = False"
| "primitive _ = True"

definition sameValueZero :: "jsval \<Rightarrow> jsval \<Rightarrow> bool" where
  "sameValueZero a b = (primitive a \<and> a = b)"

fun mapGet :: "jsval \<Rightarrow> (jsval \<times> 'v) list \<Rightarrow> 'v option" where
  "mapGet k [] = None"
| "mapGet k ((k', v) # m) = (if sameValueZero k' k then Some v else mapGet k m)"

definition mapHas :: "jsval \<Rightarrow> (jsval \<times> 'v) list \<Rightarrow> bool" where
  "mapHas k m = (mapGet k m \<noteq> None)"

fun mapSet :: "jsval \<Rightarrow> 'v \<Rightarrow> (jsval \<times> 'v) list \<Rightarrow> (jsval \<times> 'v) list" where
  "mapSet k v [] = [(k, v)]"
| "mapSet k v ((k', v') # m) =
     (if sameValueZero k' k then (k', v) # m else (k', v') # mapSet k v m)"

section \<open>Engine state\<close>

record trackState =
  muted :: bool
  solo :: bool
  steps :: nat
  sound :: string

record synthParams =
  lpf :: rat
  lpq :: rat
  room :: rat
  delay :: rat
  bpm :: int
  bpmEnabled :: bool

text \<open>
  \<^verbatim>\<open>this.mixedPatterns\<close>, with its members \<^verbatim>\<open>presets\<close>, \<^verbatim>\<open>tracks\<close> and \<^verbatim>\<open>saved\<close>
  (renamed, since \<open>presets\<close> is the table of built-in presets below). The class
  \<^verbatim>\<open>CyberMidi\<close> has no presets and leaves \<open>mixPresets\<close> alone.
\<close>

record mixedPatterns =
  mixPresets :: "(string \<times> bool) list"
  mixTracks :: "(string \<times> bool) list"
  mixSaved :: "(string \<times> bool) list"

text \<open>The record \<^verbatim>\<open>savePattern\<close> stores, and what a library entry is after an import.\<close>

record savedPattern =
  savedCode :: string
  savedSequencerState :: "(string \<times> slot list) list"
  savedTrackStates :: "(string \<times> trackState) list"
  savedSynthParams :: synthParams

datatype entry = Record savedPattern | Json jsval

text \<open>One entry of the undo history; the engine state extends it.\<close>

record snapshot =
  sequencerState :: "(string \<times> slot list) list"
  trackStates :: "(string \<times> trackState) list"
  code :: string
  mixedPatterns :: mixedPatterns
  synthParams :: synthParams

record engine = snapshot +
  savedPatterns :: "(jsval \<times> entry) list"
  history :: "snapshot list"
  historyIndex :: int
  maxHistory :: nat

datatype failure =
    TypeError
  | NothingToUndo
  | NothingToRedo
  | MutedOrNotSoloed
  | NoActiveSteps
  | NoActivePatterns
  | NameRequired
  | NoCodeToSave
  | PatternExists
  | NoFileSelected
  | InvalidPatternFile

text \<open>The built-in presets of \<^verbatim>\<open>CyberStrudel\<close> (the getter \<^verbatim>\<open>presets\<close>).\<close>

definition presets :: "(string \<times> string) list" where
  \<open>presets =
    [(''a'', ''s('bd,bass(4,8)').jux(rev).gain(0.8)''),
     (''b'', ''s('bd,bass(4,8)').jux(rev).gain(0.8).lpf(800).lpq(1).room(0.5).delay(0.3)''),
     (''c'', ''s('bd*2,hh(3,4),bass:[1 4](5,8,1)').jux(rev).attack(0.015).stack(s('~ sd')).gain(0.8)''),
     (''d'', ''note("[c eb g <f bb>](3,8,<0 1>)".sub(12))\<newline>.s("<sawtooth>/64")\<newline>.lpf(sine.range(300,2000).slow(16))\<newline>.lpa(0.005)\<newline>.lpd(perlin.range(.02,.2))\<newline>.lps(perlin.range(0,.5).slow(3))\<newline>.lpq(sine.range(2,10).slow(32))\<newline>.release(.5)\<newline>.lpenv(perlin.range(1,8).slow(2))\<newline>.ftype('24db')\<newline>.room(1)\<newline>.juxBy(.5,rev)\<newline>.sometimes(add(note(12)))\<newline>.stack(s("bd*2").bank('RolandTR909'))\<newline>.gain(.5).fast(2)''),
     (''e'', ''s("hh*8").gain(".4!2 1 .4!2 1 .4 1").fast(2).layer(\<newline>  x => x.degrade().pan(0),\<newline>  x => x.undegrade().pan(1))''),
     (''f'', ''n("<-4,0 5 2 1>*<2!3 4>")\<newline>.scale("<C F>/8:pentatonic")\<newline>.s("sine")\<newline>.penv("<.5 0 7 -2>*2").vib("4:.1")\<newline>.phaser(2).delay(.25).room(.3)\<newline>.size(4).fast(1.5)\<newline>.fm(3)\<newline>.fmdecay(.2)\<newline>.fmsustain(1)\<newline>.fmenv("<exp lin>")\<newline>.fm("<1 2 1.5 1.61>")\<newline>.lpf(tri.range(100, 5000).slow(2))\<newline>.lpf(tri.range(100, 5000).slow(2))\<newline>.vowel("<a e i <o u>>")\<newline>.vib("<.5 1 2 4 8 16>:8")\<newline>.room(1).roomsize(5).orbit(2)''),
     (''g'', ''note("D#1!8").s("sine").penv(34).pdecay(.1).decay(.23).distort("8:.4")''),
     (''h'', ''sound("bd*2,<white pink brown>*8")\<newline>.decay(.04).sustain(0).scope()''),
     (''i'', ''note("c4 d4 e4 f4 g4 a4 b4 c5").sound('sine').gain(0.8)''),
     (''j'', ''stack( n("<-4,0 5 2 1>*<2!3 4>")\<newline>.scale("<C F>/8:pentatonic")\<newline>.s("sine")\<newline>.penv("<.5 0 7 -2>*2").vib("4:.1")\<newline>.size(4).fast(1.5)\<newline>.room(1).roomsize(5).orbit(2))''),
     (''k'', ''stack(s('bd*2,jvbass*4(2,8),jvbass(8,8,1)').jux(rev), note('c1 eb1 g1 bb1').sound('sawtooth').lpf(sine.range(500,1000).slow(8)).lpq(5)).fm(sine.range(3,8).slow(100)).gain(0.8)''),
     (''l'', ''n("0 1 4 2 0 6 3 2").sound("jazz")'')]\<close>

text \<open>The state the constructor of \<^verbatim>\<open>CyberStrudel\<close> builds, around a given editor text.\<close>

definition CyberStrudel_new :: "string \<Rightarrow> engine" where
  "CyberStrudel_new editorText =
    \<lparr>sequencerState =
       [(''bd'', replicate 8 (Bit False)), (''sd'', replicate 8 (Bit False)),
        (''hh'', replicate 8 (Bit False)), (''cp'', replicate 8 (Bit False))],
     trackStates =
       [(''bd'', \<lparr>muted = False, solo = False, steps = 8, sound = ''bd''\<rparr>),
        (''sd'', \<lparr>muted = False, solo = False, steps = 8, sound = ''sd''\<rparr>),
        (''hh'', \<lparr>muted = False, solo = False, steps = 8, sound = ''hh''\<rparr>),
        (''cp'', \<lparr>muted = False, solo = False, steps = 8, sound = ''cp''\<rparr>)],
     code = editorText,
     mixedPatterns = \<lparr>mixPresets = [], mixTracks = [], mixSaved = []\<rparr>,
     synthParams = \<lparr>lpf = 800, lpq = 1, room = 1 / 2, delay = 3 / 10, bpm = 120,
                     bpmEnabled = True\<rparr>,
     savedPatterns = [], history = [], historyIndex = - 1, maxHistory = 50\<rparr>"

section \<open>History\<close>

text \<open>\<^verbatim>\<open>JSON.parse(JSON.stringify(this.sequencerState))\<close>.\<close>

definition jsonSteps :: "(string \<times> slot list) list \<Rightarrow> (string \<times> slot list) list" where
  "jsonSteps seq = map (\<lambda>(track, grid). (track, map jsonSlot grid)) seq"

definition snapshotOf :: "engine \<Rightarrow> snapshot" where
  "snapshotOf st =
    \<lparr>sequencerState = jsonSteps (sequencerState st), trackStates = trackStates st,
     code = code st, mixedPatterns = mixedPatterns st, synthParams = synthParams st\<rparr>"

text \<open>What is left of an array after \<^verbatim>\<open>xs.splice(start)\<close>.\<close>

definition spliceFrom :: "int \<Rightarrow> 'a list \<Rightarrow> 'a list" where
  "spliceFrom start xs =
    take (nat (if start < 0 then max (int (length xs) + start) 0 else start)) xs"

text \<open>\<^verbatim>\<open>saveToHistory\<close> (lines 106-123 and 938-955, the same text).\<close>

definition saveToHistory :: "engine \<Rightarrow> engine" where
  "saveToHistory st =
    (let state = snapshotOf st;
         h1 = (if historyIndex st < int (length (history st)) - 1
               then spliceFrom (historyIndex st + 1) (history st) else history st);
         h2 = h1 @ [state];
         h3 = (if length h2 > maxHistory st then tl h2 else h2)
     in st\<lparr>history := h3, historyIndex := int (length h3) - 1\<rparr>)"

text \<open>
  \<^verbatim>\<open>restoreState\<close> of \<^verbatim>\<open>CyberStrudel\<close> (lines 984-1074), less the DOM: every editable
  part of the state is replaced by a copy of the entry's.
\<close>

definition CyberStrudel_restoreState :: "snapshot \<Rightarrow> engine \<Rightarrow> engine" where
  "CyberStrudel_restoreState s st =
    st\<lparr>sequencerState := jsonSteps (sequencerState s), trackStates := trackStates s,
       mixedPatterns := mixedPatterns s, synthParams := synthParams s, code := code s\<rparr>"

text \<open>\<^verbatim>\<open>this.history[i]\<close>, which is \<^verbatim>\<open>undefined\<close> outside the array.\<close>

definition entryAt :: "snapshot list \<Rightarrow> int \<Rightarrow> snapshot option" where
  "entryAt h i = (if 0 \<le> i \<and> i < int (length h) then Some (h ! nat i) else None)"

definition CyberStrudel_undo :: "engine \<Rightarrow> failure option \<times> engine" where
  "CyberStrudel_undo st =
    (if historyIndex st \<le> 0 then (Some NothingToUndo, st)
     else (let st1 = st\<lparr>historyIndex := historyIndex st - 1\<rparr>
           in case entryAt (history st1) (historyIndex st1) of
                None \<Rightarrow> (Some TypeError, st1)
              | Some s \<Rightarrow> (None, CyberStrudel_restoreState s st1)))"

definition CyberStrudel_redo :: "engine \<Rightarrow> failure option \<times> engine" where
  "CyberStrudel_redo st =
    (if historyIndex st \<ge> int (length (history st)) - 1 then (Some NothingToRedo, st)
     else (let st1 = st\<lparr>historyIndex := historyIndex st + 1\<rparr>
           in case entryAt (history st1) (historyIndex st1) of
                None \<Rightarrow> (Some TypeError, st1)
              | Some s \<Rightarrow> (None, CyberStrudel_restoreState s st1)))"

section \<open>Compiling a track\<close>

text \<open>
  The class \<^verbatim>\<open>CyberStrudel\<close> compiles a track by the same three expressions in
  \<^verbatim>\<open>generateTrackCode\<close> (lines 1710-1719), \<^verbatim>\<open>updateMixedCode\<close> (1764-1770) and
  \<^verbatim>\<open>generateSequencerCode\<close> (2050-2056); \<^verbatim>\<open>mixTrack\<close> repeats the first two.
\<close>

text \<open>\<^verbatim>\<open>Object.values(this.trackStates).some(state => state.solo)\<close>.\<close>

definition anySolo :: "engine \<Rightarrow> bool" where
  "anySolo st = list_ex (\<lambda>(track, state). solo state) (trackStates st)"

text \<open>
  \<^verbatim>\<open>.map(active => active ? 'x' : '~')\<close> followed by \<^verbatim>\<open>join\<close>, on one element:
  \<^verbatim>\<open>map\<close> skips an empty slot and \<^verbatim>\<open>join\<close> renders it as the empty string.
\<close>

fun marker :: "slot \<Rightarrow> string" where
  "marker Hole = []"
| "marker v = (if truthySlot v then ''x'' else ''~'')"

text \<open>\<^verbatim>\<open>this.sequencerState[track].slice(0, stepCount).map(...).join(' ')\<close>.\<close>

definition stepMarks :: "nat \<Rightarrow> slot list \<Rightarrow> string" where
  "stepMarks stepCount grid = joinWith '' '' (map marker (take stepCount grid))"

definition tonal :: "string \<Rightarrow> bool" where
  "tonal voice = (voice \<in> set [''sawtooth'', ''sine'', ''triangle''])"

definition trackCode :: "string \<Rightarrow> nat \<Rightarrow> string \<Rightarrow> string" where
  \<open>trackCode voice stepCount marks =
    (if tonal voice
     then ''note('c3').sound('' @ [CHR 0x27] @ voice @ [CHR 0x27] @ '').struct("'' @ marks @
          ''").gain(0.8)''
     else ''s("'' @ voice @ ''*'' @ showNat stepCount @ ''").struct("'' @ marks @ ''").gain(0.8)'')\<close>

text \<open>The template \<^verbatim>\<open>`setCps(${this.synthParams.bpm}/60/4)\n${code}`\<close>.\<close>

definition setCpsLine :: "int \<Rightarrow> string \<Rightarrow> string" where
  "setCpsLine tempo text = ''setCps('' @ showInt tempo @ ''/60/4)\<newline>'' @ text"

text \<open>\<^verbatim>\<open>this.mixedPatterns.tracks[track]\<close> and its like, read as a condition.\<close>

definition selected :: "(string \<times> bool) list \<Rightarrow> string \<Rightarrow> bool" where
  "selected sel key = (map_of sel key = Some True)"

text \<open>\<^verbatim>\<open>muted || (some track is soloed && !solo)\<close>, the test that silences a track.\<close>

definition silenced :: "engine \<Rightarrow> trackState \<Rightarrow> bool" where
  "silenced st state = (muted state \<or> (anySolo st \<and> \<not> solo state))"

section \<open>The mixer of CyberStrudel\<close>

text \<open>
  The first loop of \<^verbatim>\<open>updateMixedCode\<close> (lines 1759-1774), over the entries of
  \<^verbatim>\<open>this.sequencerState\<close>; \<open>None\<close> is the \<^verbatim>\<open>TypeError\<close> of reading \<^verbatim>\<open>.muted\<close> of a
  track without configuration.
\<close>

fun trackLoop :: "engine \<Rightarrow> (string \<times> slot list) list \<Rightarrow> jsval list \<Rightarrow> jsval list option" where
  "trackLoop st [] patterns = Some patterns"
| "trackLoop st ((track, grid) # rest) patterns =
    (if selected (mixTracks (mixedPatterns st)) track
     then (case map_of (trackStates st) track of
             None \<Rightarrow> None
           | Some state \<Rightarrow>
               if silenced st state then trackLoop st rest patterns
               else (let stepCount = steps state;
                         marks = stepMarks stepCount grid
                     in if CHR ''x'' \<in> set marks
                        then trackLoop st rest
                               (patterns @ [JStr (trackCode (sound state) stepCount marks)])
                        else trackLoop st rest patterns))
     else trackLoop st rest patterns)"

text \<open>The second loop (lines 1777-1781); a key outside the table pushes \<^verbatim>\<open>undefined\<close>.\<close>

definition presetValue :: "string \<Rightarrow> jsval" where
  "presetValue key = (case map_of presets key of Some text \<Rightarrow> JStr text | None \<Rightarrow> JUndefined)"

fun presetLoop :: "(string \<times> bool) list \<Rightarrow> jsval list \<Rightarrow> jsval list" where
  "presetLoop [] patterns = patterns"
| "presetLoop ((key, on) # rest) patterns =
    (if on then presetLoop rest (patterns @ [presetValue key]) else presetLoop rest patterns)"

text \<open>The third loop (lines 1784-1792): \<^verbatim>\<open>pattern && pattern.code\<close> guards the push.\<close>

fun entryTruthy :: "entry \<Rightarrow> bool" where
  "entryTruthy (Record r) = True"
| "entryTruthy (Json v) = truthy v"

fun entryCode :: "entry \<Rightarrow> jsval" where
  "entryCode (Record r) = JStr (savedCode r)"
| "entryCode (Json v) = getCode v"

fun savedLoop :: "(jsval \<times> entry) list \<Rightarrow> (string \<times> bool) list \<Rightarrow> jsval list \<Rightarrow> jsval list" where
  "savedLoop lib [] patterns = patterns"
| "savedLoop lib ((name, on) # rest) patterns =
    (if on
     then (case mapGet (JStr name) lib of
             None \<Rightarrow> savedLoop lib rest patterns
           | Some pattern \<Rightarrow>
               if entryTruthy pattern \<and> truthy (entryCode pattern)
               then savedLoop lib rest (patterns @ [entryCode pattern])
               else savedLoop lib rest patterns)
     else savedLoop lib rest patterns)"

text \<open>Lines 1795-1803: no wrapper around a single pattern, \<^verbatim>\<open>stack(...)\<close> around several.\<close>

definition combine :: "jsval list \<Rightarrow> jsval" where
  "combine patterns =
    (if length patterns = 1 then hd patterns
     else if length patterns > 1 then JStr (''stack('' @ jsJoin '', '' patterns @ '')'')
     else JStr [])"

text \<open>Lines 1805-1808.\<close>

definition addBpm :: "synthParams \<Rightarrow> jsval list \<Rightarrow> jsval \<Rightarrow> jsval" where
  "addBpm params patterns newCode =
    (if bpmEnabled params \<and> length patterns > 0
     then JStr (setCpsLine (bpm params) (toStr newCode)) else newCode)"

text \<open>The array \<^verbatim>\<open>patterns\<close> after the three loops (lines 1756-1792).\<close>

definition collectPatterns :: "engine \<Rightarrow> jsval list option" where
  "collectPatterns st =
    (case trackLoop st (sequencerState st) [] of
       None \<Rightarrow> None
     | Some fromTracks \<Rightarrow>
         Some (savedLoop (savedPatterns st) (mixSaved (mixedPatterns st))
                 (presetLoop (mixPresets (mixedPatterns st)) fromTracks)))"

text \<open>
  \<^verbatim>\<open>updateMixedCode\<close> of \<^verbatim>\<open>CyberStrudel\<close> (lines 1755-1818). The editor takes the new
  program; an empty program is reported by the notification "No active patterns to
  play" after the (unmodelled) call of \<^verbatim>\<open>stop\<close>.
\<close>

definition CyberStrudel_updateMixedCode :: "engine \<Rightarrow> failure option \<times> engine" where
  "CyberStrudel_updateMixedCode st =
    (case collectPatterns st of
       None \<Rightarrow> (Some TypeError, st)
     | Some patterns \<Rightarrow>
         (let newCode = addBpm (synthParams st) patterns (combine patterns)
          in (if truthy newCode then None else Some NoActivePatterns,
              st\<lparr>code := toStr newCode\<rparr>)))"

text \<open>
  A caller goes on after \<^verbatim>\<open>updateMixedCode\<close> has returned, whatever it has notified;
  only an exception ends the caller too.
\<close>

fun andReturn :: "failure option \<times> engine \<Rightarrow> failure option \<times> engine" where
  "andReturn (Some TypeError, st) = (Some TypeError, st)"
| "andReturn (r, st) = (None, st)"

section \<open>Generating code from the sequencer\<close>

text \<open>\<^verbatim>\<open>generateTrackCode\<close> of \<^verbatim>\<open>CyberStrudel\<close> (lines 1705-1753).\<close>

definition CyberStrudel_generateTrackCode :: "string \<Rightarrow> engine \<Rightarrow> failure option \<times> engine" where
  "CyberStrudel_generateTrackCode track st =
    (case map_of (trackStates st) track of
       None \<Rightarrow> (Some TypeError, st)
     | Some state \<Rightarrow>
         if silenced st state then (Some MutedOrNotSoloed, st)
         else (case map_of (sequencerState st) track of
                 None \<Rightarrow> (Some TypeError, st)
               | Some grid \<Rightarrow>
                   (let stepCount = steps state;
                        marks = stepMarks stepCount grid
                    in if CHR ''x'' \<notin> set marks then (Some NoActiveSteps, st)
                       else (let code0 = trackCode (sound state) stepCount marks;
                                 code1 = (if bpmEnabled (synthParams st)
                                          then setCpsLine (bpm (synthParams st)) code0 else code0)
                             in (None,
                                 saveToHistory
                                   (st\<lparr>code := code1,
                                       mixedPatterns :=
                                         \<lparr>mixPresets = [], mixTracks = [(track, True)],
                                          mixSaved = []\<rparr>\<rparr>))))))"

text \<open>The loop of \<^verbatim>\<open>generateSequencerCode\<close> (lines 2046-2059), over every track.\<close>

fun sequencerLoop :: "engine \<Rightarrow> (string \<times> slot list) list \<Rightarrow> string list \<Rightarrow> string list option" where
  "sequencerLoop st [] patterns = Some patterns"
| "sequencerLoop st ((track, grid) # rest) patterns =
    (case map_of (trackStates st) track of
       None \<Rightarrow> None
     | Some state \<Rightarrow>
         if silenced st state then sequencerLoop st rest patterns
         else (let stepCount = steps state;
                   marks = stepMarks stepCount grid
               in if CHR ''x'' \<in> set marks
                  then sequencerLoop st rest (patterns @ [trackCode (sound state) stepCount marks])
                  else sequencerLoop st rest patterns))"

text \<open>\<^verbatim>\<open>generateSequencerCode\<close> (lines 2043-2099): always a \<^verbatim>\<open>stack(...)\<close>.\<close>

definition CyberStrudel_generateSequencerCode :: "engine \<Rightarrow> failure option \<times> engine" where
  "CyberStrudel_generateSequencerCode st =
    (case sequencerLoop st (sequencerState st) [] of
       None \<Rightarrow> (Some TypeError, st)
     | Some patterns \<Rightarrow>
         if length patterns = 0 then (Some NoActiveSteps, st)
         else (let code0 = ''stack('' @ joinWith '', '' patterns @ '')'';
                   code1 = (if bpmEnabled (synthParams st)
                            then setCpsLine (bpm (synthParams st)) code0 else code0)
               in (None,
                   saveToHistory
                     (st\<lparr>code := code1,
                         mixedPatterns :=
                           \<lparr>mixPresets = [],
                            mixTracks = map (\<lambda>(track, grid). (track, True)) (sequencerState st),
                            mixSaved = []\<rparr>\<rparr>))))"

section \<open>Editing the tracks\<close>

text \<open>
  \<^verbatim>\<open>toggleStep\<close> (lines 229-237 and 1123-1131, the same text); the argument
  \<open>updateMixedCode\<close> is the method of the class at hand.
\<close>

definition toggleStep ::
  "(engine \<Rightarrow> failure option \<times> engine) \<Rightarrow> string \<Rightarrow> nat \<Rightarrow> engine \<Rightarrow> failure option \<times> engine" where
  "toggleStep updateMixedCode track index st =
    (let st1 = saveToHistory st
     in case map_of (sequencerState st1) track of
          None \<Rightarrow> (Some TypeError, st1)
        | Some grid \<Rightarrow>
            (let grid' = arraySet grid index (Bit (\<not> truthySlot (arrayGet grid index)));
                 st2 = st1\<lparr>sequencerState := AList.update track grid' (sequencerState st1)\<rparr>
             in if selected (mixTracks (mixedPatterns st2)) track
                then andReturn (updateMixedCode st2) else (None, st2)))"

definition CyberStrudel_toggleStep :: "string \<Rightarrow> nat \<Rightarrow> engine \<Rightarrow> failure option \<times> engine" where
  "CyberStrudel_toggleStep = toggleStep CyberStrudel_updateMixedCode"

text \<open>The copying loop of \<^verbatim>\<open>changeStepCount\<close> (lines 1674-1676).\<close>

function copyLoop :: "nat \<Rightarrow> nat \<Rightarrow> slot list \<Rightarrow> slot list \<Rightarrow> slot list" where
  "copyLoop i bound current grid =
    (if i < bound then copyLoop (i + 1) bound current (arraySet grid i (arrayGet current i))
     else grid)"
  by pat_completeness auto
termination
  by (relation "measure (\<lambda>(i, bound, current, grid). bound - i)") auto

declare copyLoop.simps [simp del]

text \<open>\<^verbatim>\<open>changeStepCount\<close> of \<^verbatim>\<open>CyberStrudel\<close> (lines 1670-1683).\<close>

definition CyberStrudel_changeStepCount ::
  "string \<Rightarrow> nat \<Rightarrow> engine \<Rightarrow> failure option \<times> engine" where
  "CyberStrudel_changeStepCount track count st =
    (case map_of (trackStates st) track of
       None \<Rightarrow> (Some TypeError, st)
     | Some state \<Rightarrow>
         (let st1 = st\<lparr>trackStates :=
                        AList.update track (state\<lparr>steps := count\<rparr>) (trackStates st)\<rparr>
          in case map_of (sequencerState st1) track of
               None \<Rightarrow> (Some TypeError, st1)
             | Some grid \<Rightarrow>
                 (let current = take count grid;
                      grid' = copyLoop 0 (min (length current) count) current
                                (replicate count (Bit False));
                      st2 = st1\<lparr>sequencerState :=
                                  AList.update track grid' (sequencerState st1)\<rparr>
                  in if selected (mixTracks (mixedPatterns st2)) track
                     then andReturn (CyberStrudel_updateMixedCode st2) else (None, st2))))"

text \<open>\<^verbatim>\<open>toggleMute\<close> of \<^verbatim>\<open>CyberStrudel\<close> (lines 1971-1990).\<close>

definition CyberStrudel_toggleMute :: "string \<Rightarrow> engine \<Rightarrow> failure option \<times> engine" where
  "CyberStrudel_toggleMute track st =
    (case map_of (trackStates st) track of
       None \<Rightarrow> (Some TypeError, st)
     | Some state \<Rightarrow>
         (let st1 = st\<lparr>trackStates :=
                        AList.update track (state\<lparr>muted := \<not> muted state, solo := False\<rparr>)
                          (trackStates st)\<rparr>
          in if selected (mixTracks (mixedPatterns st1)) track
             then andReturn (CyberStrudel_updateMixedCode st1) else (None, st1)))"

text \<open>
  \<^verbatim>\<open>toggleSolo\<close> of \<^verbatim>\<open>CyberStrudel\<close> (lines 1992-2016): the loop over
  \<^verbatim>\<open>Object.keys(this.trackStates)\<close> rewrites every entry.
\<close>

definition CyberStrudel_toggleSolo :: "string \<Rightarrow> engine \<Rightarrow> failure option \<times> engine" where
  "CyberStrudel_toggleSolo track st =
    (case map_of (trackStates st) track of
       None \<Rightarrow> (Some TypeError, st)
     | Some state \<Rightarrow>
         (let wasSolo = solo state;
              st1 = st\<lparr>trackStates :=
                        map (\<lambda>(t, s). (t, if t = track then s\<lparr>solo := \<not> wasSolo\<rparr>
                                          else s\<lparr>solo := False, muted := False\<rparr>))
                          (trackStates st)\<rparr>
          in if list_ex (\<lambda>(t, v). v) (mixTracks (mixedPatterns st1))
             then andReturn (CyberStrudel_updateMixedCode st1) else (None, st1)))"

section \<open>The pattern library\<close>

definition recordOf :: "string \<Rightarrow> engine \<Rightarrow> savedPattern" where
  "recordOf text st =
    \<lparr>savedCode = text, savedSequencerState = jsonSteps (sequencerState st),
     savedTrackStates = trackStates st, savedSynthParams = synthParams st\<rparr>"

text \<open>
  \<^verbatim>\<open>savePattern\<close> of \<^verbatim>\<open>CyberStrudel\<close> (lines 2197-2227); \<open>nameInput\<close> is the text of the
  element \<^verbatim>\<open>pattern-name\<close>.
\<close>

definition CyberStrudel_savePattern :: "string \<Rightarrow> engine \<Rightarrow> failure option \<times> engine" where
  "CyberStrudel_savePattern nameInput st =
    (let name = trim nameInput
     in if name = [] then (Some NameRequired, st)
        else (let text = trim (code st)
              in if text = [] then (Some NoCodeToSave, st)
                 else (None,
                       st\<lparr>savedPatterns :=
                            mapSet (JStr name) (Record (recordOf text st)) (savedPatterns st)\<rparr>)))"

text \<open>\<^verbatim>\<open>savePattern\<close> of \<^verbatim>\<open>CyberMidi\<close> (lines 532-554).\<close>

definition CyberMidi_savePattern :: "string \<Rightarrow> engine \<Rightarrow> failure option \<times> engine" where
  "CyberMidi_savePattern nameInput st =
    (if trim nameInput = [] then (Some NameRequired, st)
     else (let name = trim nameInput
           in if mapHas (JStr name) (savedPatterns st) then (Some PatternExists, st)
              else (None,
                    saveToHistory
                      (st\<lparr>savedPatterns :=
                            mapSet (JStr name) (Record (recordOf (code st) st))
                              (savedPatterns st)\<rparr>))))"

text \<open>
  \<^verbatim>\<open>new Map(data)\<close> on a parsed JSON value: \<^verbatim>\<open>null\<close> gives the empty map, a value that
  is not iterable or an item that is not an object throws (\<open>None\<close>), and every other
  item contributes the entry \<^verbatim>\<open>(item[0], item[1])\<close>.
\<close>

fun addEntries :: "jsval list \<Rightarrow> (jsval \<times> entry) list \<Rightarrow> (jsval \<times> entry) list option" where
  "addEntries [] m = Some m"
| "addEntries (item # items) m =
    (if primitive item then None
     else addEntries items (mapSet (getIndex item 0) (Json (getIndex item 1)) m))"

fun newMap :: "jsval \<Rightarrow> (jsval \<times> entry) list option" where
  "newMap JUndefined = Some []"
| "newMap JNull = Some []"
| "newMap (JArr items) = addEntries items []"
| "newMap (JStr s) = (if s = [] then Some [] else None)"
| "newMap (JBool b) = None"
| "newMap (JNum n) = None"
| "newMap (JObj fs) = None"

text \<open>
  What the file chooser hands to \<^verbatim>\<open>importPatterns\<close>: no file, a text that
  \<^verbatim>\<open>JSON.parse\<close> rejects, or a text with its parsed value.
\<close>

datatype upload = NoFile | Unparsable | Parsed jsval

text \<open>
  \<^verbatim>\<open>importPatterns\<close> of \<^verbatim>\<open>CyberStrudel\<close> (lines 2440-2462), with the body of the reader's
  \<^verbatim>\<open>onload\<close>: whatever is thrown inside \<^verbatim>\<open>try\<close> ends in the notification "Invalid
  pattern file".
\<close>

definition CyberStrudel_importPatterns :: "upload \<Rightarrow> engine \<Rightarrow> failure option \<times> engine" where
  "CyberStrudel_importPatterns file st =
    (case file of
       NoFile \<Rightarrow> (Some NoFileSelected, st)
     | Unparsable \<Rightarrow> (Some InvalidPatternFile, st)
     | Parsed data \<Rightarrow>
         (case newMap data of
            None \<Rightarrow> (Some InvalidPatternFile, st)
          | Some m \<Rightarrow>
              (let st1 = st\<lparr>savedPatterns := m,
                            mixedPatterns := (mixedPatterns st)\<lparr>mixSaved := []\<rparr>\<rparr>
               in case CyberStrudel_updateMixedCode st1 of
                    (Some TypeError, st2) \<Rightarrow> (Some InvalidPatternFile, st2)
                  | (r, st2) \<Rightarrow> (None, saveToHistory st2))))"

section \<open>The class CyberMidi\<close>

text \<open>\<^verbatim>\<open>steps.map((active, i) => active ? sound : '~')\<close> and \<^verbatim>\<open>join\<close>, on one element.\<close>

fun noteMarker :: "string \<Rightarrow> slot \<Rightarrow> string" where
  "noteMarker note Hole = []"
| "noteMarker note v = (if truthySlot v then note else ''~'')"

text \<open>The loops of \<^verbatim>\<open>updateMixedCode\<close> of \<^verbatim>\<open>CyberMidi\<close> (lines 408-413 and 414-421).\<close>

fun midiTrackLoop :: "engine \<Rightarrow> (string \<times> bool) list \<Rightarrow> string \<Rightarrow> string option" where
  "midiTrackLoop st [] text = Some text"
| "midiTrackLoop st ((track, on) # rest) text =
    (if on
     then (case (map_of (sequencerState st) track, map_of (trackStates st) track) of
             (Some grid, Some state) \<Rightarrow>
               midiTrackLoop st rest
                 (text @ ''note(\"'' @ joinWith '' '' (map (noteMarker (sound state)) grid)
                    @ ''\").midi()\<newline>'')
           | _ \<Rightarrow> None)
     else midiTrackLoop st rest text)"

fun midiSavedLoop :: "(jsval \<times> entry) list \<Rightarrow> (string \<times> bool) list \<Rightarrow> string \<Rightarrow> string" where
  "midiSavedLoop lib [] text = text"
| "midiSavedLoop lib ((name, on) # rest) text =
    (if on
     then (case mapGet (JStr name) lib of
             None \<Rightarrow> midiSavedLoop lib rest text
           | Some pattern \<Rightarrow>
               if entryTruthy pattern \<and> truthy (entryCode pattern)
               then midiSavedLoop lib rest (text @ toStr (entryCode pattern) @ ''\<newline>'')
               else midiSavedLoop lib rest text)
     else midiSavedLoop lib rest text)"

text \<open>\<^verbatim>\<open>updateMixedCode\<close> of \<^verbatim>\<open>CyberMidi\<close> (lines 405-424).\<close>

definition CyberMidi_updateMixedCode :: "engine \<Rightarrow> failure option \<times> engine" where
  "CyberMidi_updateMixedCode st =
    (case midiTrackLoop st (mixTracks (mixedPatterns st)) [] of
       None \<Rightarrow> (Some TypeError, st)
     | Some text \<Rightarrow>
         (None,
          st\<lparr>code := midiSavedLoop (savedPatterns st) (mixSaved (mixedPatterns st)) text\<rparr>))"

definition CyberMidi_toggleStep :: "string \<Rightarrow> nat \<Rightarrow> engine \<Rightarrow> failure option \<times> engine" where
  "CyberMidi_toggleStep = toggleStep CyberMidi_updateMixedCode"

text \<open>\<^verbatim>\<open>toggleSolo\<close> of \<^verbatim>\<open>CyberMidi\<close> (lines 364-372).\<close>

definition CyberMidi_toggleSolo :: "string \<Rightarrow> engine \<Rightarrow> failure option \<times> engine" where
  "CyberMidi_toggleSolo track st =
    (case map_of (trackStates st) track of
       None \<Rightarrow> (Some TypeError, st)
     | Some state \<Rightarrow>
         (let st1 = st\<lparr>trackStates :=
                        AList.update track (state\<lparr>solo := \<not> solo state\<rparr>) (trackStates st)\<rparr>
          in if selected (mixTracks (mixedPatterns st1)) track
             then andReturn (CyberMidi_updateMixedCode st1) else (None, st1)))"

section \<open>Predicates and sample states of the statements\<close>

text \<open>A function that changes nothing but the text of the editor.\<close>

definition codeOnly :: "(engine \<Rightarrow> failure option \<times> engine) \<Rightarrow> bool" where
  "codeOnly f = (\<forall>st. \<exists>t. snd (f st) = st\<lparr>code := t\<rparr>)"

text \<open>The cursor of a non-empty history points into it.\<close>

definition histInv :: "engine \<Rightarrow> bool" where
  "histInv st =
    (length (history st) > 0 \<longrightarrow>
       0 \<le> historyIndex st \<and> historyIndex st < int (length (history st)))"

text \<open>A full history of two entries, the cursor on the last one.\<close>

definition historyDemo :: engine where
  "historyDemo =
    (CyberStrudel_new ''c'')
      \<lparr>history := [snapshotOf (CyberStrudel_new ''a''), snapshotOf (CyberStrudel_new ''b'')],
       historyIndex := 1, maxHistory := 2\<rparr>"

text \<open>The number of tracks whose \<^verbatim>\<open>solo\<close> flag is set.\<close>

definition soloCount :: "engine \<Rightarrow> nat" where
  "soloCount st = length (filter (\<lambda>(t, s). solo s) (trackStates st))"

text \<open>Three tracks: the first soloed, the third muted.\<close>

definition soloDemo :: engine where
  "soloDemo =
    (CyberStrudel_new [])
      \<lparr>trackStates :=
         [(''bd'', \<lparr>muted = False, solo = True, steps = 8, sound = ''bd''\<rparr>),
          (''sd'', \<lparr>muted = False, solo = False, steps = 8, sound = ''sd''\<rparr>),
          (''hh'', \<lparr>muted = True, solo = False, steps = 8, sound = ''hh''\<rparr>)]\<rparr>"

text \<open>Two tracks of eight steps, the first with four active steps.\<close>

definition resizeDemo :: engine where
  "resizeDemo =
    (CyberStrudel_new [])
      \<lparr>sequencerState :=
         [(''bd'', map Bit [True, False, True, True, False, False, False, True]),
          (''sd'', replicate 8 (Bit False))]\<rparr>"

text \<open>The fields of a text between the occurrences of a separator character.\<close>

fun fields :: "char \<Rightarrow> string \<Rightarrow> string list" where
  "fields c [] = [[]]"
| "fields c (x # xs) =
    (if x = c then [] # fields c xs
     else (case fields c xs of [] \<Rightarrow> [[x]] | w # ws \<Rightarrow> (x # w) # ws))"

text \<open>The hit marker and the rest marker.\<close>

definition stepMarker :: "bool \<Rightarrow> string" where
  "stepMarker active = (if active then ''x'' else ''~'')"

text \<open>Two tracks with the steps 1 and 3 active, a sample and a tonal sound.\<close>

definition compileDemo :: engine where
  "compileDemo =
    (CyberStrudel_new [])
      \<lparr>sequencerState :=
         [(''bd'', map Bit [True, False, True, False, False, False, False, False]),
          (''sd'', map Bit [True, False, True, False, False, False, False, False])],
       trackStates :=
         [(''bd'', \<lparr>muted = False, solo = False, steps = 8, sound = ''bd''\<rparr>),
          (''sd'', \<lparr>muted = False, solo = False, steps = 8, sound = ''sine''\<rparr>)]\<rparr>"

text \<open>
  The sources that the mixer of \<^verbatim>\<open>CyberStrudel\<close> includes, in the words of the
  specification: a track that is selected, not muted, not excluded by the solo rule
  and has an active step among its first \<open>steps\<close> elements; a selected preset; a
  selected saved pattern that the library holds with a non-empty code.
\<close>

definition audible :: "engine \<Rightarrow> string \<times> slot list \<Rightarrow> bool" where
  "audible st =
    (\<lambda>(track, grid).
       selected (mixTracks (mixedPatterns st)) track \<and>
       (case map_of (trackStates st) track of
          None \<Rightarrow> False
        | Some state \<Rightarrow>
            \<not> muted state \<and> \<not> (anySolo st \<and> \<not> solo state)
            \<and> list_ex truthySlot (take (steps state) grid)))"

definition trackFragment :: "engine \<Rightarrow> string \<times> slot list \<Rightarrow> jsval" where
  "trackFragment st =
    (\<lambda>(track, grid).
       case map_of (trackStates st) track of
         None \<Rightarrow> JUndefined
       | Some state \<Rightarrow>
           JStr (trackCode (sound state) (steps state) (stepMarks (steps state) grid)))"

definition trackFragments :: "engine \<Rightarrow> jsval list" where
  "trackFragments st = map (trackFragment st) (filter (audible st) (sequencerState st))"

definition presetFragments :: "engine \<Rightarrow> jsval list" where
  "presetFragments st =
    map (\<lambda>(key, on). presetValue key)
      (filter (\<lambda>(key, on). on) (mixPresets (mixedPatterns st)))"

definition storedCode :: "(jsval \<times> entry) list \<Rightarrow> string \<Rightarrow> jsval option" where
  "storedCode lib name =
    (case mapGet (JStr name) lib of
       None \<Rightarrow> None
     | Some pattern \<Rightarrow>
         if entryTruthy pattern \<and> truthy (entryCode pattern) then Some (entryCode pattern)
         else None)"

definition savedFragments :: "engine \<Rightarrow> jsval list" where
  "savedFragments st =
    List.map_filter (\<lambda>(name, on). if on then storedCode (savedPatterns st) name else None)
      (mixSaved (mixedPatterns st))"

definition fragments :: "engine \<Rightarrow> jsval list" where
  "fragments st = trackFragments st @ presetFragments st @ savedFragments st"

text \<open>Nothing, the one fragment as it is, or all of them inside one \<^verbatim>\<open>stack(...)\<close>.\<close>

fun composed :: "jsval list \<Rightarrow> jsval" where
  "composed [] = JStr []"
| "composed [f] = f"
| "composed fs = JStr (''stack('' @ jsJoin '', '' fs @ '')'')"

text \<open>Every selected track has a configuration: recomposing throws no \<^verbatim>\<open>TypeError\<close>.\<close>

definition configured :: "engine \<Rightarrow> bool" where
  "configured st =
    list_all (\<lambda>(track, grid). selected (mixTracks (mixedPatterns st)) track
                \<longrightarrow> map_of (trackStates st) track \<noteq> None)
      (sequencerState st)"

text \<open>The same for \<^verbatim>\<open>CyberMidi\<close>, and the program its mixer writes, line by line.\<close>

definition midiConfigured :: "engine \<Rightarrow> bool" where
  "midiConfigured st =
    list_all (\<lambda>(track, on). on \<longrightarrow> map_of (sequencerState st) track \<noteq> None
                                  \<and> map_of (trackStates st) track \<noteq> None)
      (mixTracks (mixedPatterns st))"

definition midiLine :: "engine \<Rightarrow> string \<Rightarrow> string" where
  "midiLine st track =
    (case (map_of (sequencerState st) track, map_of (trackStates st) track) of
       (Some grid, Some state) \<Rightarrow>
         ''note(\"'' @ joinWith '' '' (map (noteMarker (sound state)) grid)
           @ ''\").midi()\<newline>''
     | _ \<Rightarrow> [])"

definition midiProgram :: "engine \<Rightarrow> string" where
  "midiProgram st =
    concat (map (\<lambda>(track, on). midiLine st track)
              (filter (\<lambda>(track, on). on) (mixTracks (mixedPatterns st))))
    @ concat (map (\<lambda>c. toStr c @ ''\<newline>'') (savedFragments st))"

text \<open>The number a text of decimal digits denotes.\<close>

definition digitValue :: "char \<Rightarrow> nat" where
  "digitValue c = of_char c - 48"

definition decimal :: "string \<Rightarrow> nat" where
  "decimal s = foldl (\<lambda>a c. 10 * a + digitValue c) 0 s"

text \<open>
  The state the constructor of \<^verbatim>\<open>CyberMidi\<close> builds (lines 6-34); it has no filter
  parameters, which are 0 here.
\<close>

definition CyberMidi_new :: "string \<Rightarrow> engine" where
  "CyberMidi_new editorText =
    \<lparr>sequencerState = [(''note'', replicate 8 (Bit False))],
     trackStates = [(''note'', \<lparr>muted = False, solo = False, steps = 8, sound = ''C4''\<rparr>)],
     code = editorText,
     mixedPatterns = \<lparr>mixPresets = [], mixTracks = [], mixSaved = []\<rparr>,
     synthParams = \<lparr>lpf = 0, lpq = 0, room = 0, delay = 0, bpm = 120, bpmEnabled = True\<rparr>,
     savedPatterns = [], history = [], historyIndex = - 1, maxHistory = 50\<rparr>"

text \<open>
  A mix of \<^verbatim>\<open>CyberStrudel\<close>: of the selected tracks \<^verbatim>\<open>sd\<close> is muted and \<^verbatim>\<open>hh\<close> has no
  active step, one of two presets is selected, and of the selected saved patterns
  one has an empty code and one is not in the library.
\<close>

definition mixDemo :: engine where
  \<open>mixDemo =
    (CyberStrudel_new [])
      \<lparr>sequencerState :=
         [(''bd'', map Bit [True, False, True, False, False, False, False, False]),
          (''sd'', map Bit [False, False, True, False, False, False, True, False]),
          (''hh'', replicate 8 (Bit False)),
          (''cp'', replicate 8 (Bit True))],
       trackStates :=
         [(''bd'', \<lparr>muted = False, solo = False, steps = 8, sound = ''bd''\<rparr>),
          (''sd'', \<lparr>muted = True, solo = False, steps = 8, sound = ''sd''\<rparr>),
          (''hh'', \<lparr>muted = False, solo = False, steps = 8, sound = ''hh''\<rparr>),
          (''cp'', \<lparr>muted = False, solo = False, steps = 8, sound = ''cp''\<rparr>)],
       mixedPatterns :=
         \<lparr>mixPresets = [(''l'', True), (''a'', False)],
          mixTracks = [(''bd'', True), (''sd'', True), (''hh'', True)],
          mixSaved = [(''riff'', True), (''blank'', True), (''gone'', True)]\<rparr>,
       savedPatterns :=
         [(JStr ''riff'',
           Record \<lparr>savedCode = ''s("cp*2")'', savedSequencerState = [],
                   savedTrackStates = [],
                   savedSynthParams = synthParams (CyberStrudel_new [])\<rparr>),
          (JStr ''blank'', Json (JObj [(''code'', JStr [])]))]\<rparr>\<close>

text \<open>The same with the track \<^verbatim>\<open>bd\<close> as the only source and the tempo switched off.\<close>

definition mixOne :: engine where
  "mixOne =
    mixDemo
      \<lparr>synthParams := (synthParams mixDemo)\<lparr>bpmEnabled := False\<rparr>,
       mixedPatterns :=
         \<lparr>mixPresets = [], mixTracks = [(''bd'', True), (''sd'', True), (''hh'', True)],
          mixSaved = []\<rparr>\<rparr>"

text \<open>The same with no source left.\<close>

definition mixNone :: engine where
  "mixNone =
    mixDemo
      \<lparr>mixedPatterns :=
         \<lparr>mixPresets = [], mixTracks = [(''sd'', True), (''hh'', True)],
          mixSaved = [(''blank'', True)]\<rparr>\<rparr>"

text \<open>Two selected tracks of \<^verbatim>\<open>CyberMidi\<close>, and the first of them alone.\<close>

definition midiDemo :: engine where
  "midiDemo =
    (CyberMidi_new [])
      \<lparr>sequencerState :=
         [(''note'', map Bit [True, False, True, False, False, False, False, False]),
          (''note2'', map Bit [False, True, False, False, False, False, False, False])],
       trackStates :=
         [(''note'', \<lparr>muted = False, solo = False, steps = 8, sound = ''C4''\<rparr>),
          (''note2'', \<lparr>muted = False, solo = False, steps = 8, sound = ''E4''\<rparr>)],
       mixedPatterns :=
         \<lparr>mixPresets = [], mixTracks = [(''note'', True), (''note2'', True)],
          mixSaved = []\<rparr>\<rparr>"

definition midiOne :: engine where
  "midiOne =
    midiDemo\<lparr>mixedPatterns := \<lparr>mixPresets = [], mixTracks = [(''note'', True)],
                                mixSaved = []\<rparr>\<rparr>"

text \<open>
  A library that holds the pattern \<^verbatim>\<open>X\<close>, which is also selected for the mix, while
  the editor holds another program.
\<close>

definition libraryDemo :: engine where
  \<open>libraryDemo =
    (CyberStrudel_new ''s("bd*4")'')
      \<lparr>savedPatterns :=
         [(JStr ''X'',
           Record \<lparr>savedCode = ''s("hh*8")'', savedSequencerState = [],
                   savedTrackStates = [],
                   savedSynthParams = synthParams (CyberStrudel_new [])\<rparr>)],
       mixedPatterns := \<lparr>mixPresets = [], mixTracks = [], mixSaved = [(''X'', True)]\<rparr>\<rparr>\<close>

text \<open>The parsed form of a well-formed export: a list of pairs of a name and a record.\<close>

definition exported :: "(string \<times> jsval) list \<Rightarrow> jsval" where
  "exported pairs = JArr (map (\<lambda>(name, r). JArr [JStr name, r]) pairs)"

text \<open>
  Three tracks of \<^verbatim>\<open>CyberMidi\<close>, all selected for the mix: the first soloed, the third
  muted.
\<close>

definition midiSoloDemo :: engine where
  "midiSoloDemo =
    (CyberMidi_new [])
      \<lparr>sequencerState :=
         [(''note'', map Bit [True, False, False, False]),
          (''note2'', map Bit [False, True, False, False]),
          (''note3'', map Bit [False, False, True, False])],
       trackStates :=
         [(''note'', \<lparr>muted = False, solo = True, steps = 4, sound = ''C4''\<rparr>),
          (''note2'', \<lparr>muted = False, solo = False, steps = 4, sound = ''E4''\<rparr>),
          (''note3'', \<lparr>muted = True, solo = False, steps = 4, sound = ''G4''\<rparr>)],
       mixedPatterns :=
         \<lparr>mixPresets = [],
          mixTracks = [(''note'', True), (''note2'', True), (''note3'', True)],
          mixSaved = []\<rparr>\<rparr>"

text \<open>The library of \<open>libraryDemo\<close> in an engine of \<^verbatim>\<open>CyberMidi\<close>.\<close>

definition midiLibraryDemo :: engine where
  \<open>midiLibraryDemo =
    (CyberMidi_new ''note("C4 E4").midi()'')\<lparr>savedPatterns := savedPatterns libraryDemo\<rparr>\<close>

text \<open>The mix of \<open>mixDemo\<close> after the configuration of every track has been lost.\<close>

definition mixBroken :: engine where
  "mixBroken = mixDemo\<lparr>trackStates := []\<rparr>"

text \<open>
  A run of \<^verbatim>\<open>CyberStrudel\<close> from the state of the constructor: two steps of \<^verbatim>\<open>bd\<close> are
  toggled, the track is resized to sixteen steps (\<^verbatim>\<open>updateSequencerTrack\<close> then builds
  sixteen step buttons, lines 1102-1117), and the first toggle is undone
  (\<^verbatim>\<open>restoreState\<close>, lines 997-1022, repaints the buttons that exist and builds none).
\<close>

definition resizedRun :: engine where
  "resizedRun =
    snd (CyberStrudel_changeStepCount ''bd'' 16
      (snd (CyberStrudel_toggleStep ''bd'' 1
        (snd (CyberStrudel_toggleStep ''bd'' 0 (CyberStrudel_new []))))))"

definition undoneRun :: engine where
  "undoneRun = snd (CyberStrudel_undo resizedRun)"

text \<open>
  A configuration with two soloed tracks, as \<^verbatim>\<open>loadPattern\<close> (line 2312) installs it
  from a pattern of the library.
\<close>

definition soloPair :: engine where
  "soloPair =
    (CyberStrudel_new [])
      \<lparr>trackStates :=
         [(''bd'', \<lparr>muted = False, solo = True, steps = 8, sound = ''bd''\<rparr>),
          (''sd'', \<lparr>muted = False, solo = True, steps = 8, sound = ''sd''\<rparr>),
          (''hh'', \<lparr>muted = False, solo = False, steps = 8, sound = ''hh''\<rparr>)]\<rparr>"

section \<open>What recomposing the mix leaves alone\<close>

lemma andReturn_snd [simp]: "snd (andReturn r) = snd r"
  by (cases r rule: andReturn.cases) simp_all

lemma andReturn_fst:
  "fst (andReturn r) = (if fst r = Some TypeError then Some TypeError else None)"
  by (cases r rule: andReturn.cases) simp_all

lemma CyberStrudel_updateMixedCode_frame:
  "\<exists>t. snd (CyberStrudel_updateMixedCode st) = st\<lparr>code := t\<rparr>"
proof (cases "collectPatterns st")
  case None
  then have "snd (CyberStrudel_updateMixedCode st) = st\<lparr>code := code st\<rparr>"
    by (simp add: CyberStrudel_updateMixedCode_def)
  then show ?thesis by blast
next
  case (Some a)
  then have "snd (CyberStrudel_updateMixedCode st) =
      st\<lparr>code := code (snd (CyberStrudel_updateMixedCode st))\<rparr>"
    by (simp add: CyberStrudel_updateMixedCode_def Let_def)
  then show ?thesis by blast
qed

lemma CyberMidi_updateMixedCode_frame:
  "\<exists>t. snd (CyberMidi_updateMixedCode st) = st\<lparr>code := t\<rparr>"
proof (cases "midiTrackLoop st (mixTracks (mixedPatterns st)) []")
  case None
  then have "snd (CyberMidi_updateMixedCode st) = st\<lparr>code := code st\<rparr>"
    by (simp add: CyberMidi_updateMixedCode_def)
  then show ?thesis by blast
next
  case (Some a)
  then have "snd (CyberMidi_updateMixedCode st) =
      st\<lparr>code := code (snd (CyberMidi_updateMixedCode st))\<rparr>"
    by (simp add: CyberMidi_updateMixedCode_def Let_def)
  then show ?thesis by blast
qed

lemma codeOnly_fields:
  assumes "codeOnly f"
  shows "sequencerState (snd (f st)) = sequencerState st"
    and "trackStates (snd (f st)) = trackStates st"
    and "mixedPatterns (snd (f st)) = mixedPatterns st"
    and "synthParams (snd (f st)) = synthParams st"
    and "savedPatterns (snd (f st)) = savedPatterns st"
    and "history (snd (f st)) = history st"
    and "historyIndex (snd (f st)) = historyIndex st"
    and "maxHistory (snd (f st)) = maxHistory st"
proof -
  from assms obtain t where "snd (f st) = st\<lparr>code := t\<rparr>"
    unfolding codeOnly_def by blast
  then show "sequencerState (snd (f st)) = sequencerState st"
    and "trackStates (snd (f st)) = trackStates st"
    and "mixedPatterns (snd (f st)) = mixedPatterns st"
    and "synthParams (snd (f st)) = synthParams st"
    and "savedPatterns (snd (f st)) = savedPatterns st"
    and "history (snd (f st)) = history st"
    and "historyIndex (snd (f st)) = historyIndex st"
    and "maxHistory (snd (f st)) = maxHistory st"
    by simp_all
qed

lemma codeOnly_CyberStrudel: "codeOnly CyberStrudel_updateMixedCode"
  unfolding codeOnly_def using CyberStrudel_updateMixedCode_frame by blast

lemma codeOnly_CyberMidi: "codeOnly CyberMidi_updateMixedCode"
  unfolding codeOnly_def using CyberMidi_updateMixedCode_frame by blast

lemma saveToHistory_fields [simp]:
  "sequencerState (saveToHistory st) = sequencerState st"
  "trackStates (saveToHistory st) = trackStates st"
  "mixedPatterns (saveToHistory st) = mixedPatterns st"
  "synthParams (saveToHistory st) = synthParams st"
  "savedPatterns (saveToHistory st) = savedPatterns st"
  "code (saveToHistory st) = code st"
  "maxHistory (saveToHistory st) = maxHistory st"
  by (simp_all add: saveToHistory_def Let_def)

section \<open>The undo history\<close>

lemma saveToHistory_history:
  assumes "histInv st"
  shows "history (saveToHistory st) =
     (let h = take (nat (historyIndex st + 1)) (history st) @ [snapshotOf st]
      in if length h > maxHistory st then tl h else h)"
proof (cases "history st = []")
  case True
  then show ?thesis by (simp add: saveToHistory_def Let_def spliceFrom_def)
next
  case False
  with assms have b: "0 \<le> historyIndex st" "historyIndex st < int (length (history st))"
    by (simp_all add: histInv_def)
  show ?thesis
  proof (cases "historyIndex st < int (length (history st)) - 1")
    case True
    with b show ?thesis by (simp add: saveToHistory_def Let_def spliceFrom_def)
  next
    case False
    with b have "nat (historyIndex st + 1) = length (history st)" by linarith
    with False show ?thesis by (simp add: saveToHistory_def Let_def)
  qed
qed

lemma saveToHistory_index:
  "historyIndex (saveToHistory st) = int (length (history (saveToHistory st))) - 1"
  by (simp add: saveToHistory_def Let_def)

lemma saveToHistory_bounded:
  assumes "length (history st) \<le> maxHistory st"
  shows "length (history (saveToHistory st)) \<le> maxHistory st"
  using assms by (auto simp add: saveToHistory_def Let_def spliceFrom_def)

lemma saveToHistory_inv: "histInv (saveToHistory st)"
  by (auto simp add: histInv_def saveToHistory_index)

lemma undo_inv: "histInv st \<Longrightarrow> histInv (snd (CyberStrudel_undo st))"
  by (auto simp add: histInv_def CyberStrudel_undo_def CyberStrudel_restoreState_def Let_def
      split: option.splits)

lemma redo_inv: "histInv st \<Longrightarrow> histInv (snd (CyberStrudel_redo st))"
  by (auto simp add: histInv_def CyberStrudel_redo_def CyberStrudel_restoreState_def Let_def
      split: option.splits)

lemma histInv_new: "histInv (CyberStrudel_new t)"
  by (simp add: histInv_def CyberStrudel_new_def)

text \<open>
  Under the invariant neither \<^verbatim>\<open>undo\<close> nor \<^verbatim>\<open>redo\<close> reads outside the history: they
  either refuse or restore the neighbouring entry.
\<close>

lemma undo_restores:
  assumes "histInv st" and "history st \<noteq> []"
  shows "CyberStrudel_undo st =
    (if historyIndex st \<le> 0 then (Some NothingToUndo, st)
     else (None, CyberStrudel_restoreState (history st ! nat (historyIndex st - 1))
                   (st\<lparr>historyIndex := historyIndex st - 1\<rparr>)))"
  using assms by (auto simp add: histInv_def CyberStrudel_undo_def entryAt_def Let_def)

lemma redo_restores:
  assumes "histInv st" and "history st \<noteq> []"
  shows "CyberStrudel_redo st =
    (if historyIndex st \<ge> int (length (history st)) - 1 then (Some NothingToRedo, st)
     else (None, CyberStrudel_restoreState (history st ! nat (historyIndex st + 1))
                   (st\<lparr>historyIndex := historyIndex st + 1\<rparr>)))"
  using assms by (auto simp add: histInv_def CyberStrudel_redo_def entryAt_def Let_def)

text \<open>
  C6. On a history whose cursor is in range, \<^verbatim>\<open>saveToHistory\<close> keeps the entries up to
  the cursor and drops the rest, appends the new snapshot, and drops the oldest
  entry when that makes the history longer than \<open>maxHistory\<close>; the cursor ends on the
  last entry, a history that fitted \<open>maxHistory\<close> still fits it, and the cursor is in
  range after \<^verbatim>\<open>saveToHistory\<close>, \<^verbatim>\<open>undo\<close> and \<^verbatim>\<open>redo\<close>.
\<close>

theorem history_push_prunes_evicts_keeps_cursor:
  assumes "histInv st"
  shows "history (saveToHistory st) =
           (let h = take (nat (historyIndex st + 1)) (history st) @ [snapshotOf st]
            in if length h > maxHistory st then tl h else h)
       \<and> historyIndex (saveToHistory st) = int (length (history (saveToHistory st))) - 1
       \<and> (length (history st) \<le> maxHistory st
            \<longrightarrow> length (history (saveToHistory st)) \<le> maxHistory st)
       \<and> histInv (saveToHistory st)
       \<and> histInv (snd (CyberStrudel_undo st))
       \<and> histInv (snd (CyberStrudel_redo st))"
  using assms saveToHistory_history saveToHistory_index saveToHistory_bounded
    saveToHistory_inv undo_inv redo_inv
  by blast

theorem history_push_witness:
  "histInv historyDemo
   \<and> length (history historyDemo) \<le> maxHistory historyDemo
   \<and> history (saveToHistory historyDemo) =
       [snapshotOf (CyberStrudel_new ''b''), snapshotOf historyDemo]
   \<and> historyIndex (saveToHistory historyDemo) = 1
   \<and> length (history (saveToHistory historyDemo)) \<le> 2"
proof -
  have inv: "histInv historyDemo"
    by (simp add: histInv_def historyDemo_def)
  have fit: "length (history historyDemo) \<le> maxHistory historyDemo"
    by (simp add: historyDemo_def)
  have len: "length (history historyDemo) = 2" and idx: "historyIndex historyDemo = 1"
    and mx: "maxHistory historyDemo = 2"
    and h: "history historyDemo = [snapshotOf (CyberStrudel_new ''a''), snapshotOf (CyberStrudel_new ''b'')]"
    by (simp_all add: historyDemo_def)
  from history_push_prunes_evicts_keeps_cursor [OF inv] inv fit show ?thesis
    by (simp add: Let_def idx mx h)
qed

section \<open>Toggling a step\<close>

lemma toggleStep_grids:
  assumes f: "codeOnly f" and g: "map_of (sequencerState st) track = Some grid"
  shows "sequencerState (snd (toggleStep f track index st)) =
           AList.update track (arraySet grid index (Bit (\<not> truthySlot (arrayGet grid index))))
             (sequencerState st)"
    and "trackStates (snd (toggleStep f track index st)) = trackStates st"
    and "fst (toggleStep f track index st) \<in> {None, Some TypeError}"
  using g by (simp_all add: toggleStep_def Let_def codeOnly_fields[OF f] andReturn_fst)

lemma flip_in_range:
  assumes "index < length grid"
  shows "arraySet grid index (Bit (\<not> truthySlot (arrayGet grid index))) =
           grid[index := Bit (\<not> truthySlot (grid ! index))]"
  using assms by (cases "grid ! index") (simp_all add: arrayGet_def arraySet_def)

text \<open>
  An index at or beyond the end of the grid is not refused by either class: the
  write extends the array.
\<close>

lemma toggleStep_beyond_end:
  assumes f: "codeOnly f" and g: "map_of (sequencerState st) track = Some grid"
    and i: "length grid \<le> index"
  shows "map_of (sequencerState (snd (toggleStep f track index st))) track =
           Some (grid @ replicate (index - length grid) Hole @ [Bit True])"
  using i by (simp add: toggleStep_grids[OF f g] update_conv' arraySet_def arrayGet_def)

text \<open>
  At an index inside the grid of an existing track, \<^verbatim>\<open>toggleStep\<close> of either class
  replaces that one element by the negation of its truth value and leaves every
  other element, every other grid and the track configuration as they were.
\<close>

lemma toggleStep_in_range:
  assumes "map_of (sequencerState st) track = Some grid" and "index < length grid"
  shows "sequencerState (snd (CyberStrudel_toggleStep track index st)) =
           AList.update track (grid[index := Bit (\<not> truthySlot (grid ! index))])
             (sequencerState st)
       \<and> sequencerState (snd (CyberMidi_toggleStep track index st)) =
           AList.update track (grid[index := Bit (\<not> truthySlot (grid ! index))])
             (sequencerState st)
       \<and> trackStates (snd (CyberStrudel_toggleStep track index st)) = trackStates st
       \<and> trackStates (snd (CyberMidi_toggleStep track index st)) = trackStates st
       \<and> fst (CyberStrudel_toggleStep track index st) \<in> {None, Some TypeError}
       \<and> fst (CyberMidi_toggleStep track index st) \<in> {None, Some TypeError}"
  unfolding CyberStrudel_toggleStep_def CyberMidi_toggleStep_def
  using toggleStep_grids[OF codeOnly_CyberStrudel assms(1)]
    toggleStep_grids[OF codeOnly_CyberMidi assms(1)] flip_in_range[OF assms(2)]
  by simp

text \<open>
  C7. \<^verbatim>\<open>toggleStep\<close> does not refuse an index at or beyond the step count. On the
  eight-step track of a new engine, of either class, the index 8 is accepted and the
  grid grows to nine elements while \<^verbatim>\<open>steps\<close> stays 8. The index is reached in use: after
  \<^verbatim>\<open>bd\<close> has been resized to sixteen steps and the resize undone, the track has
  eight steps and a grid of eight, and the press of the thirteenth step button
  (index 12) is accepted and leaves a grid of thirteen elements, four of them empty
  slots, on a track of eight steps.
\<close>

theorem toggleStep_accepts_index_beyond_stepCount:
  "map_of (trackStates (CyberStrudel_new [])) ''bd'' =
     Some \<lparr>muted = False, solo = False, steps = 8, sound = ''bd''\<rparr>
   \<and> map_of (sequencerState (CyberStrudel_new [])) ''bd'' = Some (replicate 8 (Bit False))
   \<and> fst (CyberStrudel_toggleStep ''bd'' 8 (CyberStrudel_new [])) = None
   \<and> map_of (sequencerState (snd (CyberStrudel_toggleStep ''bd'' 8 (CyberStrudel_new [])))) ''bd''
       = Some (replicate 8 (Bit False) @ [Bit True])
   \<and> map_of (trackStates (snd (CyberStrudel_toggleStep ''bd'' 8 (CyberStrudel_new [])))) ''bd'' =
       Some \<lparr>muted = False, solo = False, steps = 8, sound = ''bd''\<rparr>
   \<and> map_of (trackStates (CyberMidi_new [])) ''note'' =
       Some \<lparr>muted = False, solo = False, steps = 8, sound = ''C4''\<rparr>
   \<and> map_of (sequencerState (CyberMidi_new [])) ''note'' = Some (replicate 8 (Bit False))
   \<and> fst (CyberMidi_toggleStep ''note'' 8 (CyberMidi_new [])) = None
   \<and> map_of (sequencerState (snd (CyberMidi_toggleStep ''note'' 8 (CyberMidi_new [])))) ''note''
       = Some (replicate 8 (Bit False) @ [Bit True])
   \<and> map_of (trackStates resizedRun) ''bd'' =
       Some \<lparr>muted = False, solo = False, steps = 16, sound = ''bd''\<rparr>
   \<and> map_of (sequencerState resizedRun) ''bd'' =
       Some (map Bit [True, True] @ replicate 14 (Bit False))
   \<and> fst (CyberStrudel_undo resizedRun) = None
   \<and> map_of (trackStates undoneRun) ''bd'' =
       Some \<lparr>muted = False, solo = False, steps = 8, sound = ''bd''\<rparr>
   \<and> map_of (sequencerState undoneRun) ''bd'' = Some (replicate 8 (Bit False))
   \<and> fst (CyberStrudel_toggleStep ''bd'' 12 undoneRun) = None
   \<and> map_of (sequencerState (snd (CyberStrudel_toggleStep ''bd'' 12 undoneRun))) ''bd'' =
       Some (replicate 8 (Bit False) @ replicate 4 Hole @ [Bit True])
   \<and> map_of (trackStates (snd (CyberStrudel_toggleStep ''bd'' 12 undoneRun))) ''bd'' =
       Some \<lparr>muted = False, solo = False, steps = 8, sound = ''bd''\<rparr>"
  by code_simp

section \<open>Changing the number of steps\<close>

lemma arraySet_length: "i < length grid \<Longrightarrow> length (arraySet grid i v) = length grid"
  by (simp add: arraySet_def)

lemma copyLoop_length:
  "bound \<le> length grid \<Longrightarrow> length (copyLoop i bound current grid) = length grid"
proof (induction i bound current grid rule: copyLoop.induct)
  case (1 i bound current grid)
  show ?case
  proof (cases "i < bound")
    case True
    with 1 show ?thesis by (subst copyLoop.simps) (simp add: arraySet_length)
  next
    case False
    then show ?thesis by (subst copyLoop.simps) simp
  qed
qed

lemma copyLoop_nth:
  "bound \<le> length grid \<Longrightarrow> j < length grid \<Longrightarrow>
   copyLoop i bound current grid ! j =
     (if i \<le> j \<and> j < bound then arrayGet current j else grid ! j)"
proof (induction i bound current grid rule: copyLoop.induct)
  case (1 i bound current grid)
  show ?case
  proof (cases "i < bound")
    case True
    with 1 have "copyLoop (i + 1) bound current (arraySet grid i (arrayGet current i)) ! j =
      (if i + 1 \<le> j \<and> j < bound then arrayGet current j
       else arraySet grid i (arrayGet current i) ! j)"
      by (simp add: arraySet_length)
    with True 1 show ?thesis
      by (subst copyLoop.simps) (auto simp add: arraySet_def nth_list_update)
  next
    case False
    then show ?thesis by (subst copyLoop.simps) auto
  qed
qed

lemma changeStepCount_result:
  assumes ts: "map_of (trackStates st) track = Some state"
    and g: "map_of (sequencerState st) track = Some grid"
  shows "sequencerState (snd (CyberStrudel_changeStepCount track count st)) =
           AList.update track
             (copyLoop 0 (min (length (take count grid)) count) (take count grid)
                (replicate count (Bit False)))
             (sequencerState st)"
    and "trackStates (snd (CyberStrudel_changeStepCount track count st)) =
           AList.update track (state\<lparr>steps := count\<rparr>) (trackStates st)"
  using ts g
  by (simp_all add: CyberStrudel_changeStepCount_def Let_def
      codeOnly_fields[OF codeOnly_CyberStrudel])

text \<open>
  C5. \<^verbatim>\<open>changeStepCount\<close> on an existing track with grid \<open>grid\<close> leaves a grid of
  \<open>count\<close> elements: below \<open>min (length grid) count\<close> the element is the one \<open>grid\<close>
  had there (an empty slot is copied as \<^verbatim>\<open>undefined\<close>), from there on it is
  \<^verbatim>\<open>false\<close>; and the track's step count is \<open>count\<close>, the length of its grid. This holds
  for every \<open>count\<close> and every old length, 4, 8 and 16 among them.
\<close>

theorem changeStepCount_resizes:
  assumes ts: "map_of (trackStates st) track = Some state"
    and g: "map_of (sequencerState st) track = Some grid"
  shows "\<exists>grid'.
           map_of (sequencerState (snd (CyberStrudel_changeStepCount track count st))) track =
             Some grid'
         \<and> length grid' = count
         \<and> (\<forall>i. i < min (length grid) count \<longrightarrow>
                grid' ! i = (case grid ! i of Hole \<Rightarrow> Nullish | v \<Rightarrow> v))
         \<and> (\<forall>i. min (length grid) count \<le> i \<and> i < count \<longrightarrow> grid' ! i = Bit False)
         \<and> map_of (trackStates (snd (CyberStrudel_changeStepCount track count st))) track =
               Some (state\<lparr>steps := count\<rparr>)"
proof -
  let ?g = "copyLoop 0 (min (length (take count grid)) count) (take count grid)
                (replicate count (Bit False))"
  have len: "length ?g = count" by (simp add: copyLoop_length)
  have nth: "?g ! i =
      (if i < min (length grid) count then arrayGet (take count grid) i else Bit False)"
    if "i < count" for i
    using that by (simp add: copyLoop_nth)
  have low: "?g ! i = (case grid ! i of Hole \<Rightarrow> Nullish | v \<Rightarrow> v)"
    if "i < min (length grid) count" for i
    using that nth[of i] by (simp add: arrayGet_def)
  have high: "?g ! i = Bit False" if "min (length grid) count \<le> i \<and> i < count" for i
    using that nth[of i] by (auto simp add: min_def split: if_splits)
  have "map_of (sequencerState (snd (CyberStrudel_changeStepCount track count st))) track =
      Some ?g"
    by (simp add: changeStepCount_result[OF ts g] update_conv')
  moreover have
    "map_of (trackStates (snd (CyberStrudel_changeStepCount track count st))) track =
       Some (state\<lparr>steps := count\<rparr>)"
    by (simp add: changeStepCount_result[OF ts g] update_conv')
  ultimately show ?thesis using len low high by blast
qed

theorem changeStepCount_resizes_witness:
  "map_of (trackStates resizeDemo) ''bd'' =
     Some \<lparr>muted = False, solo = False, steps = 8, sound = ''bd''\<rparr>
   \<and> map_of (sequencerState resizeDemo) ''bd'' =
       Some (map Bit [True, False, True, True, False, False, False, True])
   \<and> map_of (sequencerState (snd (CyberStrudel_changeStepCount ''bd'' 4 resizeDemo))) ''bd'' =
       Some (map Bit [True, False, True, True])
   \<and> map_of (sequencerState (snd (CyberStrudel_changeStepCount ''bd'' 16 resizeDemo))) ''bd'' =
       Some (map Bit [True, False, True, True, False, False, False, True]
             @ replicate 8 (Bit False))
   \<and> map_of (trackStates (snd (CyberStrudel_changeStepCount ''bd'' 16 resizeDemo))) ''bd'' =
       Some \<lparr>muted = False, solo = False, steps = 16, sound = ''bd''\<rparr>"
proof -
  have ts: "map_of (trackStates resizeDemo) ''bd'' =
     Some \<lparr>muted = False, solo = False, steps = 8, sound = ''bd''\<rparr>"
    by code_simp
  have g: "map_of (sequencerState resizeDemo) ''bd'' =
       Some (map Bit [True, False, True, True, False, False, False, True])"
    by code_simp
  have small: "map_of (sequencerState (snd (CyberStrudel_changeStepCount ''bd'' 4 resizeDemo)))
       ''bd'' = Some (map Bit [True, False, True, True])"
    by code_simp
  have large: "map_of (sequencerState (snd (CyberStrudel_changeStepCount ''bd'' 16 resizeDemo)))
       ''bd'' = Some (map Bit [True, False, True, True, False, False, False, True]
             @ replicate 8 (Bit False))"
    by code_simp
  from changeStepCount_resizes[OF ts g, of 16] ts g small large show ?thesis
    by auto
qed

section \<open>Solo and mute\<close>

lemma toggleSolo_result:
  assumes ts: "map_of (trackStates st) track = Some state"
  shows "trackStates (snd (CyberStrudel_toggleSolo track st)) =
     map (\<lambda>(t, s). (t, if t = track then s\<lparr>solo := \<not> solo state\<rparr>
                       else s\<lparr>solo := False, muted := False\<rparr>)) (trackStates st)"
  using ts
  by (simp add: CyberStrudel_toggleSolo_def Let_def codeOnly_fields[OF codeOnly_CyberStrudel])

lemma toggleMute_result:
  assumes ts: "map_of (trackStates st) track = Some state"
  shows "trackStates (snd (CyberStrudel_toggleMute track st)) =
     AList.update track (state\<lparr>muted := \<not> muted state, solo := False\<rparr>) (trackStates st)"
  using ts
  by (simp add: CyberStrudel_toggleMute_def Let_def codeOnly_fields[OF codeOnly_CyberStrudel])

lemma midi_toggleSolo_result:
  assumes ts: "map_of (trackStates st) track = Some state"
  shows "trackStates (snd (CyberMidi_toggleSolo track st)) =
     AList.update track (state\<lparr>solo := \<not> solo state\<rparr>) (trackStates st)"
  using ts
  by (simp add: CyberMidi_toggleSolo_def Let_def codeOnly_fields[OF codeOnly_CyberMidi])

lemma map_of_rewritten:
  "map_of (map (\<lambda>(t, s). (t, f t s)) xs) k = map_option (f k) (map_of xs k)"
  by (induction xs) auto

lemma count_key_distinct:
  "distinct (map fst xs) \<Longrightarrow> length (filter (\<lambda>(t, s). t = k \<and> P s) xs) \<le> Suc 0"
proof (induction xs)
  case Nil
  then show ?case by simp
next
  case (Cons x xs)
  obtain t s where x: "x = (t, s)" by (cases x)
  show ?case
  proof (cases "t = k")
    case True
    with Cons.prems x have "k \<notin> fst ` set xs" by auto
    then have "filter (\<lambda>(t, s). t = k \<and> P s) xs = []"
      by (force simp add: filter_empty_conv)
    with x show ?thesis by simp
  next
    case False
    with Cons x show ?thesis by simp
  qed
qed

lemma soloCount_rewritten:
  "length (filter (\<lambda>(t, s). solo s)
     (map (\<lambda>(t, s). (t, if t = track then s\<lparr>solo := b\<rparr>
                       else s\<lparr>solo := False, muted := False\<rparr>)) xs)) =
   length (filter (\<lambda>(t, s). t = track \<and> b) xs)"
  by (induction xs) (auto split: if_splits)

lemma soloCount_toggleSolo:
  assumes d: "distinct (map fst (trackStates st))"
    and ts: "map_of (trackStates st) track = Some state"
  shows "soloCount (snd (CyberStrudel_toggleSolo track st)) \<le> 1"
proof -
  have "soloCount (snd (CyberStrudel_toggleSolo track st)) =
        length (filter (\<lambda>(t, s). t = track \<and> \<not> solo state) (trackStates st))"
    unfolding soloCount_def toggleSolo_result[OF ts] by (rule soloCount_rewritten)
  with count_key_distinct[OF d, of track "\<lambda>s. \<not> solo state"] show ?thesis by simp
qed

lemma soloCount_update:
  "\<not> solo v \<Longrightarrow> length (filter (\<lambda>(t, s). solo s) (AList.update k v xs))
     \<le> length (filter (\<lambda>(t, s). solo s) xs)"
  by (induction xs) auto

lemma soloCount_toggleMute:
  assumes ts: "map_of (trackStates st) track = Some state"
  shows "soloCount (snd (CyberStrudel_toggleMute track st)) \<le> soloCount st"
  by (simp add: soloCount_def toggleMute_result[OF ts] soloCount_update)

text \<open>
  Both operations keep the keys of the configuration, and a call for a track that
  does not exist throws before it has changed anything; so "distinct keys, at most
  one soloed track" is an invariant of every run of the two operations, and it holds
  in the state the constructor builds.
\<close>

lemma toggleSolo_keys:
  "map fst (trackStates (snd (CyberStrudel_toggleSolo track st))) = map fst (trackStates st)"
proof (cases "map_of (trackStates st) track")
  case None
  then show ?thesis by (simp add: CyberStrudel_toggleSolo_def)
next
  case (Some state)
  have "map fst (map (\<lambda>(t, s). (t, f t s)) xs) = map fst xs" for f :: "string \<Rightarrow> trackState \<Rightarrow> trackState" and xs
    by (induction xs) auto
  then show ?thesis by (simp add: toggleSolo_result[OF Some])
qed

lemma soloInvariant_toggleSolo:
  assumes "distinct (map fst (trackStates st))" and "soloCount st \<le> 1"
  shows "distinct (map fst (trackStates (snd (CyberStrudel_toggleSolo track st))))"
    and "soloCount (snd (CyberStrudel_toggleSolo track st)) \<le> 1"
proof -
  show "distinct (map fst (trackStates (snd (CyberStrudel_toggleSolo track st))))"
    using assms(1) by (simp add: toggleSolo_keys)
  show "soloCount (snd (CyberStrudel_toggleSolo track st)) \<le> 1"
  proof (cases "map_of (trackStates st) track")
    case None
    with assms(2) show ?thesis by (simp add: CyberStrudel_toggleSolo_def)
  next
    case (Some state)
    with assms(1) show ?thesis by (rule soloCount_toggleSolo)
  qed
qed

lemma toggleMute_keys:
  "map fst (trackStates (snd (CyberStrudel_toggleMute track st))) = map fst (trackStates st)"
proof (cases "map_of (trackStates st) track")
  case None
  then show ?thesis by (simp add: CyberStrudel_toggleMute_def)
next
  case (Some state)
  then have "track \<in> fst ` set (trackStates st)"
    by (auto dest: map_of_SomeD intro: rev_image_eqI)
  then show ?thesis by (simp add: toggleMute_result[OF Some] update_keys)
qed

lemma soloInvariant_toggleMute:
  assumes "distinct (map fst (trackStates st))" and "soloCount st \<le> 1"
  shows "distinct (map fst (trackStates (snd (CyberStrudel_toggleMute track st))))"
    and "soloCount (snd (CyberStrudel_toggleMute track st)) \<le> 1"
proof -
  show "distinct (map fst (trackStates (snd (CyberStrudel_toggleMute track st))))"
    using assms(1) by (simp add: toggleMute_keys)
  show "soloCount (snd (CyberStrudel_toggleMute track st)) \<le> 1"
  proof (cases "map_of (trackStates st) track")
    case None
    with assms(2) show ?thesis by (simp add: CyberStrudel_toggleMute_def)
  next
    case (Some state)
    from soloCount_toggleMute[OF Some] assms(2) show ?thesis by simp
  qed
qed

lemma soloInvariant_new:
  "distinct (map fst (trackStates (CyberStrudel_new t)))"
  "soloCount (CyberStrudel_new t) = 0"
  by (simp_all add: CyberStrudel_new_def soloCount_def)

text \<open>
  C10, as amended. In \<^verbatim>\<open>CyberStrudel\<close>, on a configuration whose keys are distinct (as
  the keys of a JavaScript object are): \<^verbatim>\<open>toggleSolo\<close> of an existing track inverts that
  track's \<^verbatim>\<open>solo\<close>, sets \<^verbatim>\<open>solo\<close> and \<^verbatim>\<open>muted\<close> of every other track to \<^verbatim>\<open>false\<close>, and
  leaves at most one track soloed; \<^verbatim>\<open>toggleMute\<close> inverts that track's \<^verbatim>\<open>muted\<close>, clears
  its \<^verbatim>\<open>solo\<close>, leaves the other tracks as they were and so never adds a soloed
  track: at most one track is soloed after it whenever that held before it.
\<close>

theorem CyberStrudel_solo_is_exclusive:
  assumes d: "distinct (map fst (trackStates st))"
    and ts: "map_of (trackStates st) track = Some state"
  shows "map_of (trackStates (snd (CyberStrudel_toggleSolo track st))) track =
           Some (state\<lparr>solo := \<not> solo state\<rparr>)
       \<and> (\<forall>t s. t \<noteq> track \<and> map_of (trackStates st) t = Some s \<longrightarrow>
             map_of (trackStates (snd (CyberStrudel_toggleSolo track st))) t =
               Some (s\<lparr>solo := False, muted := False\<rparr>))
       \<and> soloCount (snd (CyberStrudel_toggleSolo track st)) \<le> 1
       \<and> map_of (trackStates (snd (CyberStrudel_toggleMute track st))) track =
           Some (state\<lparr>muted := \<not> muted state, solo := False\<rparr>)
       \<and> (\<forall>t. t \<noteq> track \<longrightarrow>
             map_of (trackStates (snd (CyberStrudel_toggleMute track st))) t =
               map_of (trackStates st) t)
       \<and> soloCount (snd (CyberStrudel_toggleMute track st)) \<le> soloCount st
       \<and> (soloCount st \<le> 1 \<longrightarrow> soloCount (snd (CyberStrudel_toggleMute track st)) \<le> 1)"
  using soloCount_toggleSolo[OF d ts] soloCount_toggleMute[OF ts] ts
  by (simp add: toggleSolo_result[OF ts] toggleMute_result[OF ts] map_of_rewritten update_conv')

theorem CyberStrudel_solo_is_exclusive_witness:
  "distinct (map fst (trackStates soloDemo))
   \<and> map_of (trackStates soloDemo) ''sd'' =
       Some \<lparr>muted = False, solo = False, steps = 8, sound = ''sd''\<rparr>
   \<and> soloCount soloDemo = 1
   \<and> trackStates (snd (CyberStrudel_toggleSolo ''sd'' soloDemo)) =
       [(''bd'', \<lparr>muted = False, solo = False, steps = 8, sound = ''bd''\<rparr>),
        (''sd'', \<lparr>muted = False, solo = True, steps = 8, sound = ''sd''\<rparr>),
        (''hh'', \<lparr>muted = False, solo = False, steps = 8, sound = ''hh''\<rparr>)]
   \<and> soloCount (snd (CyberStrudel_toggleSolo ''sd'' soloDemo)) \<le> 1
   \<and> soloCount (snd (CyberStrudel_toggleMute ''sd'' soloDemo)) \<le> 1"
proof -
  have d: "distinct (map fst (trackStates soloDemo))" by code_simp
  have ts: "map_of (trackStates soloDemo) ''sd'' =
       Some \<lparr>muted = False, solo = False, steps = 8, sound = ''sd''\<rparr>"
    by code_simp
  have one: "soloCount soloDemo = 1" by code_simp
  have after: "trackStates (snd (CyberStrudel_toggleSolo ''sd'' soloDemo)) =
       [(''bd'', \<lparr>muted = False, solo = False, steps = 8, sound = ''bd''\<rparr>),
        (''sd'', \<lparr>muted = False, solo = True, steps = 8, sound = ''sd''\<rparr>),
        (''hh'', \<lparr>muted = False, solo = False, steps = 8, sound = ''hh''\<rparr>)]"
    by code_simp
  from CyberStrudel_solo_is_exclusive[OF d ts] d ts one after show ?thesis
    by simp
qed

text \<open>
  C10, as stated, fails for \<^verbatim>\<open>toggleMute\<close>: with \<^verbatim>\<open>bd\<close> and \<^verbatim>\<open>sd\<close> soloed, muting \<^verbatim>\<open>hh\<close>
  touches \<^verbatim>\<open>hh\<close> alone, and two tracks are soloed after the call.
\<close>

theorem CyberStrudel_toggleMute_leaves_two_soloed_counterexample:
  "distinct (map fst (trackStates soloPair))
   \<and> fst (CyberStrudel_toggleMute ''hh'' soloPair) = None
   \<and> trackStates (snd (CyberStrudel_toggleMute ''hh'' soloPair)) =
       [(''bd'', \<lparr>muted = False, solo = True, steps = 8, sound = ''bd''\<rparr>),
        (''sd'', \<lparr>muted = False, solo = True, steps = 8, sound = ''sd''\<rparr>),
        (''hh'', \<lparr>muted = True, solo = False, steps = 8, sound = ''hh''\<rparr>)]
   \<and> soloCount (snd (CyberStrudel_toggleMute ''hh'' soloPair)) = 2
   \<and> \<not> soloCount (snd (CyberStrudel_toggleMute ''hh'' soloPair)) \<le> 1"
  by code_simp

section \<open>Compiling a track\<close>

lemma fields_append:
  "c \<notin> set w \<Longrightarrow> fields c (w @ c # rest) = w # fields c rest"
  by (induction w) auto

lemma fields_word: "c \<notin> set w \<Longrightarrow> fields c w = [w]"
  by (induction w) auto

lemma fields_join:
  assumes "\<forall>w \<in> set ws. c \<notin> set w" and "ws \<noteq> []"
  shows "fields c (joinWith [c] ws) = ws"
  using assms
proof (induction ws)
  case Nil
  then show ?case by simp
next
  case (Cons w ws)
  show ?case
  proof (cases ws)
    case Nil
    with Cons.prems show ?thesis by (simp add: fields_word)
  next
    case (Cons y ys)
    with Cons.prems Cons.IH show ?thesis by (simp add: fields_append)
  qed
qed

lemma marker_Bit: "marker \<circ> Bit = stepMarker"
  by (rule ext) (simp add: stepMarker_def)

lemma stepMarks_booleans:
  "stepMarks (length bs) (map Bit bs) = joinWith '' '' (map stepMarker bs)"
  by (simp add: stepMarks_def marker_Bit)

lemma set_joinWith:
  "set (joinWith sep ws) = (\<Union>w \<in> set ws. set w) \<union> (if length ws > 1 then set sep else {})"
  by (induction sep ws rule: joinWith.induct) auto

lemma x_in_marker: "CHR ''x'' \<in> set (marker v) \<longleftrightarrow> truthySlot v"
  by (cases v) auto

text \<open>The test \<^verbatim>\<open>steps.includes('x')\<close> finds an active step among the first \<open>n\<close>.\<close>

lemma x_in_stepMarks:
  "CHR ''x'' \<in> set (stepMarks n grid) \<longleftrightarrow> list_ex truthySlot (take n grid)"
  by (auto simp add: stepMarks_def set_joinWith x_in_marker list_ex_iff)

lemma active_booleans: "list_ex truthySlot (take (length bs) (map Bit bs)) \<longleftrightarrow> True \<in> set bs"
  by (auto simp add: list_ex_iff)

lemma mask_fields:
  assumes "bs \<noteq> []"
  shows "fields CHR '' '' (stepMarks (length bs) (map Bit bs)) = map stepMarker bs"
proof -
  have "CHR '' '' \<notin> set (stepMarker b)" for b
    by (simp add: stepMarker_def)
  then have "\<forall>w \<in> set (map stepMarker bs). CHR '' '' \<notin> set w"
    by simp
  moreover from assms have "map stepMarker bs \<noteq> []" by simp
  ultimately have
    "fields CHR '' '' (joinWith [CHR '' ''] (map stepMarker bs)) = map stepMarker bs"
    by (rule fields_join)
  then show ?thesis by (simp add: stepMarks_booleans)
qed

lemma generateTrackCode_compiles:
  assumes "map_of (trackStates st) track = Some state" and "\<not> silenced st state"
    and "map_of (sequencerState st) track = Some grid"
    and "list_ex truthySlot (take (steps state) grid)"
  shows "CyberStrudel_generateTrackCode track st =
    (None,
     saveToHistory
       (st\<lparr>code :=
             (if bpmEnabled (synthParams st)
              then setCpsLine (bpm (synthParams st))
                     (trackCode (sound state) (steps state) (stepMarks (steps state) grid))
              else trackCode (sound state) (steps state) (stepMarks (steps state) grid)),
           mixedPatterns :=
             \<lparr>mixPresets = [], mixTracks = [(track, True)], mixSaved = []\<rparr>\<rparr>))"
  using assms by (simp add: CyberStrudel_generateTrackCode_def Let_def x_in_stepMarks)

text \<open>
  C2. For a grid of \<open>N\<close> booleans (\<open>N > 0\<close>) the mask that \<^verbatim>\<open>CyberStrudel\<close> computes
  consists of \<open>N\<close> markers separated by single spaces, \<^verbatim>\<open>x\<close> at the active steps and
  \<^verbatim>\<open>~\<close> at the others. The fragment built from it is
  \<^verbatim>\<open>note('c3').sound('SOUND').struct("MASK").gain(0.8)\<close> for the sounds sawtooth, sine
  and triangle and \<^verbatim>\<open>s("SOUND*N").struct("MASK").gain(0.8)\<close> for every other sound; and
  \<^verbatim>\<open>generateTrackCode\<close> on a track that is not silenced and has an active step puts
  this fragment into the editor (behind the tempo line when the tempo is enabled).
\<close>

theorem track_compiles_to_mask_and_form:
  \<open>(bs \<noteq> [] \<longrightarrow>
       fields CHR '' '' (stepMarks (length bs) (map Bit bs)) = map stepMarker bs)
   \<and> trackCode voice (length bs) (stepMarks (length bs) (map Bit bs)) =
       (if voice = ''sawtooth'' \<or> voice = ''sine'' \<or> voice = ''triangle''
        then ''note('c3').sound('' @ [CHR 0x27] @ voice @ [CHR 0x27] @ '').struct("''
               @ stepMarks (length bs) (map Bit bs) @ ''").gain(0.8)''
        else ''s("'' @ voice @ ''*'' @ showNat (length bs) @ ''").struct("''
               @ stepMarks (length bs) (map Bit bs) @ ''").gain(0.8)'')
   \<and> (map_of (trackStates st) track = Some state \<and> \<not> silenced st state
        \<and> map_of (sequencerState st) track = Some (map Bit bs)
        \<and> steps state = length bs \<and> True \<in> set bs \<longrightarrow>
       CyberStrudel_generateTrackCode track st =
         (None,
          saveToHistory
            (st\<lparr>code :=
                  (if bpmEnabled (synthParams st)
                   then setCpsLine (bpm (synthParams st))
                          (trackCode (sound state) (length bs)
                             (stepMarks (length bs) (map Bit bs)))
                   else trackCode (sound state) (length bs)
                          (stepMarks (length bs) (map Bit bs))),
                mixedPatterns :=
                  \<lparr>mixPresets = [], mixTracks = [(track, True)], mixSaved = []\<rparr>\<rparr>)))\<close>
proof (intro conjI impI)
  assume "bs \<noteq> []"
  then show "fields CHR '' '' (stepMarks (length bs) (map Bit bs)) = map stepMarker bs"
    by (rule mask_fields)
next
  show \<open>trackCode voice (length bs) (stepMarks (length bs) (map Bit bs)) =
       (if voice = ''sawtooth'' \<or> voice = ''sine'' \<or> voice = ''triangle''
        then ''note('c3').sound('' @ [CHR 0x27] @ voice @ [CHR 0x27] @ '').struct("''
               @ stepMarks (length bs) (map Bit bs) @ ''").gain(0.8)''
        else ''s("'' @ voice @ ''*'' @ showNat (length bs) @ ''").struct("''
               @ stepMarks (length bs) (map Bit bs) @ ''").gain(0.8)'')\<close>
    by (simp add: trackCode_def tonal_def)
next
  assume a: "map_of (trackStates st) track = Some state \<and> \<not> silenced st state
        \<and> map_of (sequencerState st) track = Some (map Bit bs)
        \<and> steps state = length bs \<and> True \<in> set bs"
  then have "list_ex truthySlot (take (steps state) (map Bit bs))"
    by (auto simp add: list_ex_iff)
  with a generateTrackCode_compiles[of st track state "map Bit bs"]
  show "CyberStrudel_generateTrackCode track st =
         (None,
          saveToHistory
            (st\<lparr>code :=
                  (if bpmEnabled (synthParams st)
                   then setCpsLine (bpm (synthParams st))
                          (trackCode (sound state) (length bs)
                             (stepMarks (length bs) (map Bit bs)))
                   else trackCode (sound state) (length bs)
                          (stepMarks (length bs) (map Bit bs))),
                mixedPatterns :=
                  \<lparr>mixPresets = [], mixTracks = [(track, True)], mixSaved = []\<rparr>\<rparr>))"
    by simp
qed

text \<open>
  The example of C2: the steps 1 and 3 of eight, with the sample \<^verbatim>\<open>bd\<close> and with the
  tonal sound \<^verbatim>\<open>sine\<close>, through \<^verbatim>\<open>generateTrackCode\<close> and \<^verbatim>\<open>generateSequencerCode\<close>.
\<close>

theorem track_compiles_witness:
  \<open>map_of (trackStates compileDemo) ''bd'' =
     Some \<lparr>muted = False, solo = False, steps = 8, sound = ''bd''\<rparr>
   \<and> \<not> silenced compileDemo \<lparr>muted = False, solo = False, steps = 8, sound = ''bd''\<rparr>
   \<and> map_of (sequencerState compileDemo) ''bd'' =
     Some (map Bit [True, False, True, False, False, False, False, False])
   \<and> fields CHR '' '' (stepMarks 8 (map Bit [True, False, True, False, False, False, False, False]))
     = [''x'', ''~'', ''x'', ''~'', ''~'', ''~'', ''~'', ''~'']
   \<and> stepMarks 8 (map Bit [True, False, True, False, False, False, False, False])
     = ''x ~ x ~ ~ ~ ~ ~''
   \<and> trackCode ''bd'' 8 ''x ~ x ~ ~ ~ ~ ~'' = ''s("bd*8").struct("x ~ x ~ ~ ~ ~ ~").gain(0.8)''
   \<and> trackCode ''sine'' 8 ''x ~ x ~ ~ ~ ~ ~''
     = ''note('c3').sound('sine').struct("x ~ x ~ ~ ~ ~ ~").gain(0.8)''
   \<and> code (snd (CyberStrudel_generateTrackCode ''bd'' compileDemo))
     = ''setCps(120/60/4)\<newline>s("bd*8").struct("x ~ x ~ ~ ~ ~ ~").gain(0.8)''
   \<and> code (snd (CyberStrudel_generateTrackCode ''sd'' compileDemo))
     = ''setCps(120/60/4)\<newline>note('c3').sound('sine').struct("x ~ x ~ ~ ~ ~ ~").gain(0.8)''
   \<and> code (snd (CyberStrudel_generateSequencerCode compileDemo))
     = ''setCps(120/60/4)\<newline>stack(s("bd*8").struct("x ~ x ~ ~ ~ ~ ~").gain(0.8), note('c3').sound('sine').struct("x ~ x ~ ~ ~ ~ ~").gain(0.8))''\<close>
proof -
  have ne: "[True, False, True, False, False, False, False, False] \<noteq> []" by simp
  have rest: \<open>map_of (trackStates compileDemo) ''bd'' =
     Some \<lparr>muted = False, solo = False, steps = 8, sound = ''bd''\<rparr>
   \<and> \<not> silenced compileDemo \<lparr>muted = False, solo = False, steps = 8, sound = ''bd''\<rparr>
   \<and> map_of (sequencerState compileDemo) ''bd'' =
     Some (map Bit [True, False, True, False, False, False, False, False])
   \<and> stepMarks 8 (map Bit [True, False, True, False, False, False, False, False])
     = ''x ~ x ~ ~ ~ ~ ~''
   \<and> trackCode ''bd'' 8 ''x ~ x ~ ~ ~ ~ ~'' = ''s("bd*8").struct("x ~ x ~ ~ ~ ~ ~").gain(0.8)''
   \<and> trackCode ''sine'' 8 ''x ~ x ~ ~ ~ ~ ~''
     = ''note('c3').sound('sine').struct("x ~ x ~ ~ ~ ~ ~").gain(0.8)''
   \<and> code (snd (CyberStrudel_generateTrackCode ''bd'' compileDemo))
     = ''setCps(120/60/4)\<newline>s("bd*8").struct("x ~ x ~ ~ ~ ~ ~").gain(0.8)''
   \<and> code (snd (CyberStrudel_generateTrackCode ''sd'' compileDemo))
     = ''setCps(120/60/4)\<newline>note('c3').sound('sine').struct("x ~ x ~ ~ ~ ~ ~").gain(0.8)''
   \<and> code (snd (CyberStrudel_generateSequencerCode compileDemo))
     = ''setCps(120/60/4)\<newline>stack(s("bd*8").struct("x ~ x ~ ~ ~ ~ ~").gain(0.8), note('c3').sound('sine').struct("x ~ x ~ ~ ~ ~ ~").gain(0.8))''\<close>
    by code_simp
  have "fields CHR '' ''
          (stepMarks (length [True, False, True, False, False, False, False, False])
             (map Bit [True, False, True, False, False, False, False, False]))
     = map stepMarker [True, False, True, False, False, False, False, False]"
    using track_compiles_to_mask_and_form
            [of "[True, False, True, False, False, False, False, False]",
             THEN conjunct1, THEN mp, OF ne] .
  then have "fields CHR '' ''
          (stepMarks 8 (map Bit [True, False, True, False, False, False, False, False]))
     = [''x'', ''~'', ''x'', ''~'', ''~'', ''~'', ''~'', ''~'']"
    by (simp add: stepMarker_def eval_nat_numeral)
  with rest show ?thesis by blast
qed

section \<open>The mixer\<close>

lemma trackLoop_collects:
  "trackLoop st xs acc =
    (if list_all (\<lambda>(track, grid). selected (mixTracks (mixedPatterns st)) track
                \<longrightarrow> map_of (trackStates st) track \<noteq> None) xs
     then Some (acc @ map (trackFragment st) (filter (audible st) xs)) else None)"
proof (induction xs arbitrary: acc)
  case Nil
  then show ?case by simp
next
  case (Cons x xs)
  obtain track grid where x: "x = (track, grid)" by (cases x)
  show ?case
  proof (cases "selected (mixTracks (mixedPatterns st)) track")
    case False
    with Cons x show ?thesis by (simp add: audible_def)
  next
    case True
    show ?thesis
    proof (cases "map_of (trackStates st) track")
      case None
      with True x show ?thesis by simp
    next
      case (Some state)
      with True Cons x show ?thesis
        by (simp add: audible_def trackFragment_def silenced_def Let_def x_in_stepMarks)
    qed
  qed
qed

lemma presetLoop_collects:
  "presetLoop xs acc =
     acc @ map (\<lambda>(key, on). presetValue key) (filter (\<lambda>(key, on). on) xs)"
  by (induction xs arbitrary: acc) auto

lemma savedLoop_step:
  "savedLoop lib ((name, on) # rest) acc =
     savedLoop lib rest
       (acc @ (case (if on then storedCode lib name else None) of
                 None \<Rightarrow> [] | Some c \<Rightarrow> [c]))"
  by (simp add: storedCode_def split: option.splits)

lemma savedLoop_collects:
  "savedLoop lib xs acc =
     acc @ List.map_filter (\<lambda>(name, on). if on then storedCode lib name else None) xs"
proof (induction xs arbitrary: acc)
  case Nil
  then show ?case by (simp add: List.map_filter_simps)
next
  case (Cons x xs)
  obtain name on where x: "x = (name, on)" by (cases x)
  show ?case
    unfolding x savedLoop_step Cons.IH
    by (cases "if on then storedCode lib name else None") (simp_all add: List.map_filter_simps)
qed

lemma collectPatterns_fragments:
  "collectPatterns st = (if configured st then Some (fragments st) else None)"
  by (simp add: collectPatterns_def trackLoop_collects presetLoop_collects savedLoop_collects
      configured_def fragments_def trackFragments_def presetFragments_def savedFragments_def)

lemma combine_composed: "combine fs = composed fs"
  by (cases fs rule: composed.cases) (simp_all add: combine_def)

lemma addBpm_text:
  "toStr (addBpm params fs v) =
     (if bpmEnabled params \<and> fs \<noteq> []
      then ''setCps('' @ showInt (bpm params) @ ''/60/4)\<newline>'' @ toStr v else toStr v)"
  by (simp add: addBpm_def setCpsLine_def)

lemma updateMixedCode_text:
  assumes "configured st"
  shows "code (snd (CyberStrudel_updateMixedCode st)) =
     toStr (addBpm (synthParams st) (fragments st) (composed (fragments st)))"
    and "fst (CyberStrudel_updateMixedCode st) =
     (if truthy (addBpm (synthParams st) (fragments st) (composed (fragments st))) then None
      else Some NoActivePatterns)"
  using assms
  by (simp_all add: CyberStrudel_updateMixedCode_def collectPatterns_fragments Let_def
      combine_composed)

lemma updateMixedCode_unconfigured:
  assumes "\<not> configured st"
  shows "CyberStrudel_updateMixedCode st = (Some TypeError, st)"
  using assms by (simp add: CyberStrudel_updateMixedCode_def collectPatterns_fragments)

lemma midiTrackLoop_collects:
  "midiTrackLoop st xs acc =
    (if list_all (\<lambda>(track, on). on \<longrightarrow> map_of (sequencerState st) track \<noteq> None
                                  \<and> map_of (trackStates st) track \<noteq> None) xs
     then Some (acc @ concat (map (\<lambda>(track, on). midiLine st track)
                                (filter (\<lambda>(track, on). on) xs)))
     else None)"
proof (induction xs arbitrary: acc)
  case Nil
  then show ?case by simp
next
  case (Cons x xs)
  obtain track on where x: "x = (track, on)" by (cases x)
  show ?case
  proof (cases on)
    case False
    with Cons x show ?thesis by simp
  next
    case True
    show ?thesis
    proof (cases "map_of (sequencerState st) track")
      case None
      with True x show ?thesis by simp
    next
      case grid: (Some grid)
      show ?thesis
      proof (cases "map_of (trackStates st) track")
        case None
        with True x grid show ?thesis by simp
      next
        case (Some state)
        with True x grid Cons show ?thesis by (simp add: midiLine_def)
      qed
    qed
  qed
qed

lemma midiSavedLoop_step:
  "midiSavedLoop lib ((name, on) # rest) acc =
     midiSavedLoop lib rest
       (acc @ (case (if on then storedCode lib name else None) of
                 None \<Rightarrow> [] | Some c \<Rightarrow> toStr c @ ''\<newline>''))"
  by (simp add: storedCode_def split: option.splits)

lemma midiSavedLoop_collects:
  "midiSavedLoop lib xs acc =
     acc @ concat (map (\<lambda>c. toStr c @ ''\<newline>'')
             (List.map_filter (\<lambda>(name, on). if on then storedCode lib name else None) xs))"
proof (induction xs arbitrary: acc)
  case Nil
  then show ?case by (simp add: List.map_filter_simps)
next
  case (Cons x xs)
  obtain name on where x: "x = (name, on)" by (cases x)
  show ?case
    unfolding x midiSavedLoop_step Cons.IH
    by (cases "if on then storedCode lib name else None") (simp_all add: List.map_filter_simps)
qed

lemma CyberMidi_updateMixedCode_text:
  "CyberMidi_updateMixedCode st =
     (if midiConfigured st then (None, st\<lparr>code := midiProgram st\<rparr>) else (Some TypeError, st))"
  by (simp add: CyberMidi_updateMixedCode_def midiTrackLoop_collects midiSavedLoop_collects
      midiConfigured_def midiProgram_def savedFragments_def)

text \<open>
  C1, as amended. In \<^verbatim>\<open>CyberStrudel\<close>, when every selected track has a configuration,
  the patterns that \<^verbatim>\<open>updateMixedCode\<close> collects are the fragments of the selected
  tracks that are not muted, not excluded by the solo rule and have an active step,
  then the texts of the selected presets, then the codes of the selected saved
  patterns that are in the library with a non-empty code; the editor receives
  nothing for no fragment, the fragment itself for one and \<^verbatim>\<open>stack(f1, f2, ...)\<close> for
  several, behind the tempo line where \<open>addBpm\<close> adds it; when a selected track has
  no configuration the call ends in a \<^verbatim>\<open>TypeError\<close> and changes nothing. In
  \<^verbatim>\<open>CyberMidi\<close> the editor receives one line per selected track and one per selected
  saved pattern, and no \<^verbatim>\<open>stack\<close>.
\<close>

theorem mix_composes_included_fragments:
  "(configured st \<longrightarrow>
      collectPatterns st = Some (trackFragments st @ presetFragments st @ savedFragments st)
      \<and> code (snd (CyberStrudel_updateMixedCode st)) =
          toStr (addBpm (synthParams st) (fragments st) (composed (fragments st)))
      \<and> fst (CyberStrudel_updateMixedCode st) \<noteq> Some TypeError)
   \<and> (\<not> configured st \<longrightarrow> CyberStrudel_updateMixedCode st = (Some TypeError, st))
   \<and> (midiConfigured st \<longrightarrow>
        CyberMidi_updateMixedCode st = (None, st\<lparr>code := midiProgram st\<rparr>))"
  using updateMixedCode_text[of st] updateMixedCode_unconfigured[of st]
  by (simp add: collectPatterns_fragments fragments_def CyberMidi_updateMixedCode_text)

theorem mix_composes_witness:
  \<open>configured mixDemo
   \<and> fragments mixDemo =
       [JStr ''s("bd*8").struct("x ~ x ~ ~ ~ ~ ~").gain(0.8)'',
        JStr ''n("0 1 4 2 0 6 3 2").sound("jazz")'',
        JStr ''s("cp*2")'']
   \<and> code (snd (CyberStrudel_updateMixedCode mixDemo)) =
       ''setCps(120/60/4)\<newline>stack(s("bd*8").struct("x ~ x ~ ~ ~ ~ ~").gain(0.8), n("0 1 4 2 0 6 3 2").sound("jazz"), s("cp*2"))''
   \<and> configured mixOne
   \<and> code (snd (CyberStrudel_updateMixedCode mixOne)) =
       ''s("bd*8").struct("x ~ x ~ ~ ~ ~ ~").gain(0.8)''
   \<and> configured mixNone
   \<and> fragments mixNone = []
   \<and> CyberStrudel_updateMixedCode mixNone = (Some NoActivePatterns, mixNone\<lparr>code := []\<rparr>)
   \<and> \<not> configured mixBroken
   \<and> CyberStrudel_updateMixedCode mixBroken = (Some TypeError, mixBroken)
   \<and> midiConfigured midiDemo
   \<and> midiProgram midiDemo =
       ''note("C4 ~ C4 ~ ~ ~ ~ ~").midi()\<newline>note("~ E4 ~ ~ ~ ~ ~ ~").midi()\<newline>''\<close>
proof -
  have c: "configured mixDemo" by code_simp
  have facts: \<open>fragments mixDemo =
       [JStr ''s("bd*8").struct("x ~ x ~ ~ ~ ~ ~").gain(0.8)'',
        JStr ''n("0 1 4 2 0 6 3 2").sound("jazz")'',
        JStr ''s("cp*2")'']
   \<and> configured mixOne
   \<and> code (snd (CyberStrudel_updateMixedCode mixOne)) =
       ''s("bd*8").struct("x ~ x ~ ~ ~ ~ ~").gain(0.8)''
   \<and> configured mixNone
   \<and> fragments mixNone = []
   \<and> CyberStrudel_updateMixedCode mixNone = (Some NoActivePatterns, mixNone\<lparr>code := []\<rparr>)
   \<and> \<not> configured mixBroken
   \<and> CyberStrudel_updateMixedCode mixBroken = (Some TypeError, mixBroken)
   \<and> midiConfigured midiDemo
   \<and> midiProgram midiDemo =
       ''note("C4 ~ C4 ~ ~ ~ ~ ~").midi()\<newline>note("~ E4 ~ ~ ~ ~ ~ ~").midi()\<newline>''\<close>
    by code_simp
  have shown: \<open>toStr (addBpm (synthParams mixDemo)
       [JStr ''s("bd*8").struct("x ~ x ~ ~ ~ ~ ~").gain(0.8)'',
        JStr ''n("0 1 4 2 0 6 3 2").sound("jazz")'',
        JStr ''s("cp*2")'']
       (composed [JStr ''s("bd*8").struct("x ~ x ~ ~ ~ ~ ~").gain(0.8)'',
        JStr ''n("0 1 4 2 0 6 3 2").sound("jazz")'',
        JStr ''s("cp*2")''])) =
       ''setCps(120/60/4)\<newline>stack(s("bd*8").struct("x ~ x ~ ~ ~ ~ ~").gain(0.8), n("0 1 4 2 0 6 3 2").sound("jazz"), s("cp*2"))''\<close>
    by code_simp
  from mix_composes_included_fragments[of mixDemo, THEN conjunct1, THEN mp, OF c]
  have "code (snd (CyberStrudel_updateMixedCode mixDemo)) =
          toStr (addBpm (synthParams mixDemo) (fragments mixDemo) (composed (fragments mixDemo)))"
    by blast
  with c facts shown show ?thesis by simp
qed

text \<open>
  C1, as stated, fails in \<^verbatim>\<open>CyberMidi\<close>: two selected tracks, both audible and with
  active steps, give two lines, each ended by a line break, and no \<^verbatim>\<open>stack(...)\<close>
  around them.
\<close>

theorem CyberMidi_mix_has_no_stack_counterexample:
  \<open>fst (CyberMidi_updateMixedCode midiDemo) = None
   \<and> code (snd (CyberMidi_updateMixedCode midiDemo)) =
       ''note("C4 ~ C4 ~ ~ ~ ~ ~").midi()\<newline>note("~ E4 ~ ~ ~ ~ ~ ~").midi()\<newline>''\<close>
  by code_simp

section \<open>Soloed tracks in the mix\<close>

lemma midiLine_code [simp]: "midiLine (st\<lparr>code := c\<rparr>) = midiLine st"
  by (rule ext) (simp add: midiLine_def)

lemma midiProgram_code [simp]: "midiProgram (st\<lparr>code := c\<rparr>) = midiProgram st"
  by (simp add: midiProgram_def savedFragments_def cong: if_cong)

lemma midiConfigured_update:
  assumes ts: "map_of (trackStates st) track = Some state"
  shows "midiConfigured (st\<lparr>trackStates := AList.update track v (trackStates st)\<rparr>) =
         midiConfigured st"
proof -
  have "(map_of (AList.update track v (trackStates st)) t \<noteq> None) =
        (map_of (trackStates st) t \<noteq> None)" for t
    using ts by (simp add: update_conv')
  then show ?thesis by (simp add: midiConfigured_def)
qed

text \<open>The state \<^verbatim>\<open>toggleSolo\<close> of \<^verbatim>\<open>CyberMidi\<close> ends in, when no \<^verbatim>\<open>TypeError\<close> is thrown.\<close>

lemma midi_toggleSolo_state:
  assumes ts: "map_of (trackStates st) track = Some state"
  shows "snd (CyberMidi_toggleSolo track st) =
     (let st1 = st\<lparr>trackStates :=
                     AList.update track (state\<lparr>solo := \<not> solo state\<rparr>) (trackStates st)\<rparr>
      in if selected (mixTracks (mixedPatterns st)) track \<and> midiConfigured st
         then st1\<lparr>code := midiProgram st1\<rparr> else st1)"
  using ts
  by (simp add: CyberMidi_toggleSolo_def Let_def CyberMidi_updateMixedCode_text
      midiConfigured_update[OF ts])

lemma line_in_program:
  assumes "(t, True) \<in> set sel"
  shows "\<exists>a b. concat (map (\<lambda>(track, on). f track) (filter (\<lambda>(track, on). on) sel)) =
           a @ f t @ b"
proof -
  from assms obtain ys zs where "sel = ys @ (t, True) # zs"
    by (auto dest: split_list)
  then show ?thesis by auto
qed

text \<open>
  The mixer of \<^verbatim>\<open>CyberMidi\<close> reads neither \<^verbatim>\<open>muted\<close> nor \<^verbatim>\<open>solo\<close>: the line of every
  selected track is in its program.
\<close>

lemma midiProgram_has_line:
  assumes sel: "selected (mixTracks (mixedPatterns st)) t"
    and g: "map_of (sequencerState st) t = Some grid"
    and s: "map_of (trackStates st) t = Some state"
  shows "\<exists>a b. midiProgram st =
     a @ ''note(\"'' @ joinWith '' '' (map (noteMarker (sound state)) grid) @ ''\").midi()\<newline>''
       @ b"
proof -
  from sel have "(t, True) \<in> set (mixTracks (mixedPatterns st))"
    by (simp add: selected_def map_of_SomeD)
  from line_in_program[OF this, of "midiLine st"] obtain a b where
    "concat (map (\<lambda>(track, on). midiLine st track)
       (filter (\<lambda>(track, on). on) (mixTracks (mixedPatterns st)))) = a @ midiLine st t @ b"
    by blast
  moreover have "midiLine st t =
      ''note(\"'' @ joinWith '' '' (map (noteMarker (sound state)) grid) @ ''\").midi()\<newline>''"
    using g s by (simp add: midiLine_def)
  ultimately have "midiProgram st =
     a @ ''note(\"'' @ joinWith '' '' (map (noteMarker (sound state)) grid) @ ''\").midi()\<newline>''
       @ (b @ concat (map (\<lambda>c. toStr c @ ''\<newline>'') (savedFragments st)))"
    by (simp add: midiProgram_def)
  then show ?thesis by blast
qed

text \<open>
  C3, as amended. In \<^verbatim>\<open>CyberMidi\<close>, \<^verbatim>\<open>toggleSolo\<close> of an existing track inverts that
  track's \<^verbatim>\<open>solo\<close> flag and leaves the configuration of every other track, the grids
  and the selection of the mix as they were, so several tracks can be soloed at
  once; and all of them are audible: recomposing the mix of the state reached writes
  the program of that state, which \<^verbatim>\<open>toggleSolo\<close> itself has written when the track
  is selected for the mix, and the line of every selected track, soloed or not, is
  in that program. In \<^verbatim>\<open>CyberStrudel\<close>, \<^verbatim>\<open>toggleSolo\<close> sets \<^verbatim>\<open>solo\<close> and \<^verbatim>\<open>muted\<close> of every
  other track to \<^verbatim>\<open>false\<close>.
\<close>

theorem CyberMidi_solo_is_independent:
  assumes ts: "map_of (trackStates st) track = Some state"
  shows "map_of (trackStates (snd (CyberMidi_toggleSolo track st))) track =
           Some (state\<lparr>solo := \<not> solo state\<rparr>)
       \<and> (\<forall>t. t \<noteq> track \<longrightarrow>
             map_of (trackStates (snd (CyberMidi_toggleSolo track st))) t =
               map_of (trackStates st) t)
       \<and> sequencerState (snd (CyberMidi_toggleSolo track st)) = sequencerState st
       \<and> mixedPatterns (snd (CyberMidi_toggleSolo track st)) = mixedPatterns st
       \<and> (midiConfigured st \<longrightarrow>
             CyberMidi_updateMixedCode (snd (CyberMidi_toggleSolo track st)) =
               (None, (snd (CyberMidi_toggleSolo track st))
                        \<lparr>code := midiProgram (snd (CyberMidi_toggleSolo track st))\<rparr>)
             \<and> (selected (mixTracks (mixedPatterns st)) track \<longrightarrow>
                  code (snd (CyberMidi_toggleSolo track st)) =
                    midiProgram (snd (CyberMidi_toggleSolo track st))))
       \<and> (\<forall>t grid s.
             selected (mixTracks (mixedPatterns st)) t
             \<and> map_of (sequencerState st) t = Some grid
             \<and> map_of (trackStates (snd (CyberMidi_toggleSolo track st))) t = Some s \<longrightarrow>
             (\<exists>a b. midiProgram (snd (CyberMidi_toggleSolo track st)) =
                a @ ''note(\"'' @ joinWith '' '' (map (noteMarker (sound s)) grid)
                  @ ''\").midi()\<newline>'' @ b))
       \<and> (\<forall>t s. t \<noteq> track \<and> map_of (trackStates st) t = Some s \<longrightarrow>
             map_of (trackStates (snd (CyberStrudel_toggleSolo track st))) t =
               Some (s\<lparr>solo := False, muted := False\<rparr>))"
proof -
  let ?st' = "snd (CyberMidi_toggleSolo track st)"
  have fields: "sequencerState ?st' = sequencerState st" "mixedPatterns ?st' = mixedPatterns st"
    by (simp_all add: midi_toggleSolo_state[OF ts] Let_def)
  have conf: "midiConfigured ?st' = midiConfigured st"
    using midiConfigured_update[OF ts]
    by (simp add: midi_toggleSolo_state[OF ts] Let_def midiConfigured_def)
  have written: "code ?st' = midiProgram ?st'"
    if "midiConfigured st" "selected (mixTracks (mixedPatterns st)) track"
    using that by (simp add: midi_toggleSolo_state[OF ts] Let_def)
  have line: "\<exists>a b. midiProgram ?st' =
                a @ ''note(\"'' @ joinWith '' '' (map (noteMarker (sound s)) grid)
                  @ ''\").midi()\<newline>'' @ b"
    if "selected (mixTracks (mixedPatterns st)) t" "map_of (sequencerState st) t = Some grid"
      "map_of (trackStates ?st') t = Some s" for t grid s
    using midiProgram_has_line[of ?st' t grid s] that fields by simp
  have flags: "map_of (trackStates ?st') track = Some (state\<lparr>solo := \<not> solo state\<rparr>)"
    "\<forall>t. t \<noteq> track \<longrightarrow> map_of (trackStates ?st') t = map_of (trackStates st) t"
    by (simp_all add: midi_toggleSolo_result[OF ts] update_conv')
  have strudel: "\<forall>t s. t \<noteq> track \<and> map_of (trackStates st) t = Some s \<longrightarrow>
             map_of (trackStates (snd (CyberStrudel_toggleSolo track st))) t =
               Some (s\<lparr>solo := False, muted := False\<rparr>)"
    by (simp add: toggleSolo_result[OF ts] map_of_rewritten)
  from flags fields conf written line strudel show ?thesis
    by (simp add: CyberMidi_updateMixedCode_text) blast
qed

theorem CyberMidi_solo_is_independent_witness:
  \<open>map_of (trackStates midiSoloDemo) ''note2'' =
     Some \<lparr>muted = False, solo = False, steps = 4, sound = ''E4''\<rparr>
   \<and> midiConfigured midiSoloDemo
   \<and> selected (mixTracks (mixedPatterns midiSoloDemo)) ''note2''
   \<and> trackStates (snd (CyberMidi_toggleSolo ''note2'' midiSoloDemo)) =
       [(''note'', \<lparr>muted = False, solo = True, steps = 4, sound = ''C4''\<rparr>),
        (''note2'', \<lparr>muted = False, solo = True, steps = 4, sound = ''E4''\<rparr>),
        (''note3'', \<lparr>muted = True, solo = False, steps = 4, sound = ''G4''\<rparr>)]
   \<and> soloCount (snd (CyberMidi_toggleSolo ''note2'' midiSoloDemo)) = 2
   \<and> midiProgram (snd (CyberMidi_toggleSolo ''note2'' midiSoloDemo)) =
       ''note("C4 ~ ~ ~").midi()\<newline>note("~ E4 ~ ~").midi()\<newline>note("~ ~ G4 ~").midi()\<newline>''
   \<and> code (snd (CyberMidi_toggleSolo ''note2'' midiSoloDemo)) =
       midiProgram (snd (CyberMidi_toggleSolo ''note2'' midiSoloDemo))\<close>
proof -
  have ts: "map_of (trackStates midiSoloDemo) ''note2'' =
     Some \<lparr>muted = False, solo = False, steps = 4, sound = ''E4''\<rparr>"
    by code_simp
  have conf: "midiConfigured midiSoloDemo"
    by code_simp
  have sel: "selected (mixTracks (mixedPatterns midiSoloDemo)) ''note2''"
    by code_simp
  have after: "trackStates (snd (CyberMidi_toggleSolo ''note2'' midiSoloDemo)) =
       [(''note'', \<lparr>muted = False, solo = True, steps = 4, sound = ''C4''\<rparr>),
        (''note2'', \<lparr>muted = False, solo = True, steps = 4, sound = ''E4''\<rparr>),
        (''note3'', \<lparr>muted = True, solo = False, steps = 4, sound = ''G4''\<rparr>)]"
    by code_simp
  have two: "soloCount (snd (CyberMidi_toggleSolo ''note2'' midiSoloDemo)) = 2"
    by code_simp
  have program: \<open>midiProgram (snd (CyberMidi_toggleSolo ''note2'' midiSoloDemo)) =
       ''note("C4 ~ ~ ~").midi()\<newline>note("~ E4 ~ ~").midi()\<newline>note("~ ~ G4 ~").midi()\<newline>''\<close>
    by code_simp
  from CyberMidi_solo_is_independent[OF ts] conf sel
  have "code (snd (CyberMidi_toggleSolo ''note2'' midiSoloDemo)) =
       midiProgram (snd (CyberMidi_toggleSolo ''note2'' midiSoloDemo))"
    by simp
  with ts conf sel after two program show ?thesis
    by simp
qed

text \<open>
  C3, as stated, fails in \<^verbatim>\<open>CyberStrudel\<close>: soloing \<^verbatim>\<open>sd\<close> clears the solo flag of \<^verbatim>\<open>bd\<close>
  (and the mute flag of \<^verbatim>\<open>hh\<close>).
\<close>

theorem CyberStrudel_toggleSolo_clears_others_counterexample:
  "trackStates soloDemo =
       [(''bd'', \<lparr>muted = False, solo = True, steps = 8, sound = ''bd''\<rparr>),
        (''sd'', \<lparr>muted = False, solo = False, steps = 8, sound = ''sd''\<rparr>),
        (''hh'', \<lparr>muted = True, solo = False, steps = 8, sound = ''hh''\<rparr>)]
   \<and> fst (CyberStrudel_toggleSolo ''sd'' soloDemo) = None
   \<and> trackStates (snd (CyberStrudel_toggleSolo ''sd'' soloDemo)) =
       [(''bd'', \<lparr>muted = False, solo = False, steps = 8, sound = ''bd''\<rparr>),
        (''sd'', \<lparr>muted = False, solo = True, steps = 8, sound = ''sd''\<rparr>),
        (''hh'', \<lparr>muted = False, solo = False, steps = 8, sound = ''hh''\<rparr>)]"
  by code_simp

section \<open>The tempo statement\<close>

lemma digitValue_digit: "d < 10 \<Longrightarrow> digitValue (''0123456789'' ! d) = d"
proof -
  have "list_all (\<lambda>d. digitValue (''0123456789'' ! d) = d) [0..<10]"
    by code_simp
  moreover assume "d < 10"
  ultimately show ?thesis by (simp add: list_all_iff)
qed

lemma decimal_snoc: "decimal (s @ [c]) = 10 * decimal s + digitValue c"
  by (simp add: decimal_def)

text \<open>The digits that \<open>showNat\<close> writes denote the number written.\<close>

lemma decimal_showNat: "decimal (showNat n) = n"
proof (induction n rule: showNat.induct)
  case (1 n)
  show ?case
  proof (cases "n < 10")
    case True
    then show ?thesis by (subst showNat.simps) (simp add: decimal_def digitValue_digit)
  next
    case False
    with 1 show ?thesis
      by (subst showNat.simps) (simp add: decimal_snoc digitValue_digit)
  qed
qed

lemma savedFragments_params [simp]:
  "savedFragments (st\<lparr>synthParams := p\<rparr>) = savedFragments st"
  by (simp add: savedFragments_def cong: if_cong)

lemma midiLine_params [simp]: "midiLine (st\<lparr>synthParams := p\<rparr>) = midiLine st"
  by (rule ext) (simp add: midiLine_def)

lemma midiProgram_params: "midiProgram (st\<lparr>synthParams := p\<rparr>) = midiProgram st"
  by (simp add: midiProgram_def)

lemma midiConfigured_params: "midiConfigured (st\<lparr>synthParams := p\<rparr>) = midiConfigured st"
  by (simp add: midiConfigured_def)

lemma midi_ignores_params:
  "code (snd (CyberMidi_updateMixedCode (st\<lparr>synthParams := p\<rparr>))) =
   code (snd (CyberMidi_updateMixedCode st))"
  by (simp add: CyberMidi_updateMixedCode_text midiConfigured_params midiProgram_params)

text \<open>
  C9, as amended. In \<^verbatim>\<open>CyberStrudel\<close>, when recomposing does not throw, the editor
  receives the composed program behind the line \<^verbatim>\<open>setCps(BPM/60/4)\<close>, with \<open>BPM\<close> the
  decimal digits of \<^verbatim>\<open>bpm\<close>, when \<^verbatim>\<open>bpmEnabled\<close> holds and there is at least one
  fragment, and the composed program alone otherwise. In \<^verbatim>\<open>CyberMidi\<close> the text that
  \<^verbatim>\<open>updateMixedCode\<close> writes does not depend on \<^verbatim>\<open>synthParams\<close>: no tempo statement is
  ever added.
\<close>

theorem tempo_statement_prefix:
  "(configured st \<longrightarrow>
      code (snd (CyberStrudel_updateMixedCode st)) =
        (if bpmEnabled (synthParams st) \<and> fragments st \<noteq> []
         then ''setCps('' @ showInt (bpm (synthParams st)) @ ''/60/4)\<newline>''
                @ toStr (composed (fragments st))
         else toStr (composed (fragments st))))
   \<and> (0 \<le> bpm (synthParams st) \<longrightarrow>
        int (decimal (showInt (bpm (synthParams st)))) = bpm (synthParams st))
   \<and> code (snd (CyberMidi_updateMixedCode (st\<lparr>synthParams := p\<rparr>))) =
       code (snd (CyberMidi_updateMixedCode st))"
  using updateMixedCode_text(1)[of st] midi_ignores_params[where st = st and p = p]
  by (simp add: addBpm_text showInt_def decimal_showNat)

theorem tempo_statement_witness:
  \<open>configured mixDemo
   \<and> bpmEnabled (synthParams mixDemo)
   \<and> bpm (synthParams mixDemo) = 120
   \<and> code (snd (CyberStrudel_updateMixedCode mixDemo)) =
       ''setCps(120/60/4)\<newline>'' @ toStr (composed (fragments mixDemo))
   \<and> decimal ''120'' = 120
   \<and> \<not> bpmEnabled (synthParams mixOne)
   \<and> code (snd (CyberStrudel_updateMixedCode mixOne)) = toStr (composed (fragments mixOne))\<close>
proof -
  have c: "configured mixDemo" by code_simp
  have facts: \<open>bpmEnabled (synthParams mixDemo)
   \<and> bpm (synthParams mixDemo) = 120
   \<and> fragments mixDemo \<noteq> []
   \<and> showInt 120 = ''120''
   \<and> decimal ''120'' = 120
   \<and> \<not> bpmEnabled (synthParams mixOne)
   \<and> code (snd (CyberStrudel_updateMixedCode mixOne)) = toStr (composed (fragments mixOne))\<close>
    by code_simp
  from tempo_statement_prefix[of mixDemo, THEN conjunct1, THEN mp, OF c] c facts
  show ?thesis by simp
qed

text \<open>
  C9, as stated, fails in \<^verbatim>\<open>CyberMidi\<close>: the tempo is enabled and one track is mixed,
  and the program in the editor starts with the track, not with a tempo statement.
\<close>

theorem CyberMidi_mix_has_no_tempo_counterexample:
  \<open>bpmEnabled (synthParams midiOne)
   \<and> fst (CyberMidi_updateMixedCode midiOne) = None
   \<and> code (snd (CyberMidi_updateMixedCode midiOne)) =
       ''note("C4 ~ C4 ~ ~ ~ ~ ~").midi()\<newline>''\<close>
  by code_simp

section \<open>Saving a pattern\<close>

lemma mapGet_mapSet_same: "primitive k \<Longrightarrow> mapGet k (mapSet k v m) = Some v"
  by (induction m) (auto simp add: sameValueZero_def)

lemma length_mapSet_present: "mapHas k m \<Longrightarrow> length (mapSet k v m) = length m"
  by (induction m) (auto simp add: mapHas_def)

lemma mapSet_fresh: "\<not> mapHas k m \<Longrightarrow> mapSet k v m = m @ [(k, v)]"
  by (induction m) (auto simp add: mapHas_def)

text \<open>\<^verbatim>\<open>CyberMidi\<close> refuses a name that the library holds and changes nothing.\<close>

lemma CyberMidi_savePattern_refuses_duplicate:
  assumes "mapHas (JStr (trim nameInput)) (savedPatterns st)"
  shows "CyberMidi_savePattern nameInput st =
           (if trim nameInput = [] then (Some NameRequired, st) else (Some PatternExists, st))"
  using assms by (simp add: CyberMidi_savePattern_def Let_def)

text \<open>
  \<^verbatim>\<open>CyberStrudel\<close> never looks the name up: with a name and a program at hand the save
  succeeds, and the library holds the new record under that name, whatever it held
  before.
\<close>

lemma CyberStrudel_savePattern_replaces:
  assumes "trim nameInput \<noteq> []" and "trim (code st) \<noteq> []"
  shows "fst (CyberStrudel_savePattern nameInput st) = None"
    and "mapGet (JStr (trim nameInput))
           (savedPatterns (snd (CyberStrudel_savePattern nameInput st))) =
           Some (Record (recordOf (trim (code st)) st))"
  using assms by (simp_all add: CyberStrudel_savePattern_def Let_def mapGet_mapSet_same)

text \<open>
  C4 fails in \<^verbatim>\<open>CyberStrudel\<close>. The library holds \<^verbatim>\<open>X\<close> with the code \<^verbatim>\<open>s("hh*8")\<close>, the
  editor holds \<^verbatim>\<open>s("bd*4")\<close>: saving under the name \<^verbatim>\<open>X\<close> again succeeds and replaces
  the record, where \<^verbatim>\<open>CyberMidi\<close>, with the same library, refuses and leaves the state
  as it was.
\<close>

theorem CyberStrudel_savePattern_overwrites_duplicate:
  \<open>mapGet (JStr ''X'') (savedPatterns libraryDemo) =
      Some (Record \<lparr>savedCode = ''s("hh*8")'', savedSequencerState = [],
                    savedTrackStates = [],
                    savedSynthParams = synthParams (CyberStrudel_new [])\<rparr>)
   \<and> fst (CyberStrudel_savePattern ''X'' libraryDemo) = None
   \<and> savedPatterns (snd (CyberStrudel_savePattern ''X'' libraryDemo)) =
       [(JStr ''X'', Record (recordOf ''s("bd*4")'' libraryDemo))]
   \<and> savedCode (recordOf ''s("bd*4")'' libraryDemo) = ''s("bd*4")''
   \<and> savedPatterns midiLibraryDemo = savedPatterns libraryDemo
   \<and> CyberMidi_savePattern ''X'' midiLibraryDemo = (Some PatternExists, midiLibraryDemo)\<close>
  by code_simp

section \<open>Importing patterns\<close>

text \<open>What is refused leaves the state as it was.\<close>

lemma import_rejected:
  assumes "file = Unparsable \<or> (\<exists>data. file = Parsed data \<and> newMap data = None)"
  shows "CyberStrudel_importPatterns file st = (Some InvalidPatternFile, st)"
  using assms by (auto simp add: CyberStrudel_importPatterns_def)

text \<open>
  What \<^verbatim>\<open>new Map\<close> accepts replaces the library as a whole and clears the selection of
  saved patterns.
\<close>

lemma import_replaces:
  assumes "newMap data = Some m"
  shows "savedPatterns (snd (CyberStrudel_importPatterns (Parsed data) st)) = m"
    and "mixSaved (mixedPatterns (snd (CyberStrudel_importPatterns (Parsed data) st))) = []"
    and "fst (CyberStrudel_importPatterns (Parsed data) st) \<in> {None, Some InvalidPatternFile}"
proof -
  let ?st1 = "st\<lparr>savedPatterns := m, mixedPatterns := (mixedPatterns st)\<lparr>mixSaved := []\<rparr>\<rparr>"
  obtain r st2 where u: "CyberStrudel_updateMixedCode ?st1 = (r, st2)"
    by (cases "CyberStrudel_updateMixedCode ?st1")
  from codeOnly_fields[OF codeOnly_CyberStrudel, of ?st1] u
  have f: "savedPatterns st2 = m" "mixedPatterns st2 = (mixedPatterns st)\<lparr>mixSaved := []\<rparr>"
    by simp_all
  have res: "CyberStrudel_importPatterns (Parsed data) st =
      (if r = Some TypeError then (Some InvalidPatternFile, st2) else (None, saveToHistory st2))"
    using assms u
    by (cases r; simp add: CyberStrudel_importPatterns_def Let_def split: failure.splits)
  show "savedPatterns (snd (CyberStrudel_importPatterns (Parsed data) st)) = m"
    and "mixSaved (mixedPatterns (snd (CyberStrudel_importPatterns (Parsed data) st))) = []"
    and "fst (CyberStrudel_importPatterns (Parsed data) st) \<in> {None, Some InvalidPatternFile}"
    using f by (simp_all add: res)
qed

lemma addEntries_pairs:
  "addEntries (map (\<lambda>(name, r). JArr [JStr name, r]) pairs) m =
     Some (foldl (\<lambda>m (name, r). mapSet (JStr name) (Json r) m) m pairs)"
  by (induction pairs arbitrary: m) auto

text \<open>A well-formed list of pairs is accepted, and the map is built from it alone.\<close>

lemma newMap_exported:
  "newMap (exported pairs) =
     Some (foldl (\<lambda>m (name, r). mapSet (JStr name) (Json r) m) [] pairs)"
  by (simp add: exported_def addEntries_pairs)

text \<open>
  C8 fails in its first half. The payload \<^verbatim>\<open>null\<close> is no list of pairs, and so is
  \<^verbatim>\<open>[[1, 2]]\<close>; both are imported without complaint: the first empties the library,
  the second leaves the entry \<open>1 \<mapsto> 2\<close>, and both clear the selection of saved
  patterns. An object, a list with a number in it and a text that does not parse are
  refused and change nothing.
\<close>

theorem importPatterns_accepts_malformed_payload:
  \<open>savedPatterns libraryDemo \<noteq> []
   \<and> mixSaved (mixedPatterns libraryDemo) = [(''X'', True)]
   \<and> fst (CyberStrudel_importPatterns (Parsed JNull) libraryDemo) = None
   \<and> savedPatterns (snd (CyberStrudel_importPatterns (Parsed JNull) libraryDemo)) = []
   \<and> mixSaved (mixedPatterns (snd (CyberStrudel_importPatterns (Parsed JNull) libraryDemo)))
       = []
   \<and> fst (CyberStrudel_importPatterns (Parsed (JArr [JArr [JNum 1, JNum 2]])) libraryDemo)
       = None
   \<and> savedPatterns
        (snd (CyberStrudel_importPatterns (Parsed (JArr [JArr [JNum 1, JNum 2]])) libraryDemo))
       = [(JNum 1, Json (JNum 2))]
   \<and> CyberStrudel_importPatterns (Parsed (JObj [])) libraryDemo
       = (Some InvalidPatternFile, libraryDemo)
   \<and> CyberStrudel_importPatterns (Parsed (JArr [JNum 1])) libraryDemo
       = (Some InvalidPatternFile, libraryDemo)
   \<and> CyberStrudel_importPatterns Unparsable libraryDemo
       = (Some InvalidPatternFile, libraryDemo)\<close>
  by code_simp

end
